theory Spec2Isabelle
  imports Main
begin

section \<open>Caption generation (services/aiGenerator.js)\<close>

text \<open>
  A shallow embedding of the caption-generation service: \<open>imageUrlToBase64\<close>,
  \<open>generateInstagramCaptions\<close>, \<open>generateCombinedPost\<close> and \<open>processBatch\<close>.
  Numbers of the source that count images or kilobytes are natural numbers here; they stay
  far below \<open>2^53\<close>, where JavaScript's doubles are exact.
\<close>

subsection \<open>Batch planning\<close>

text \<open>The batching constants of the module.\<close>

definition MAX_BATCH_SIZE_MB :: nat where
  "MAX_BATCH_SIZE_MB = 30"

definition ESTIMATED_IMAGE_SIZE_KB :: nat where
  "ESTIMATED_IMAGE_SIZE_KB = 500"

text \<open>
  The \<open>for (const image of allImages)\<close> loop of \<open>generateInstagramCaptions\<close>, with its three
  mutable variables \<open>batches\<close>, \<open>currentBatch\<close> and \<open>currentBatchSizeKB\<close> as accumulators.
  The ceiling and the per-image estimate are parameters; the source fixes them to
  \<open>MAX_BATCH_SIZE_MB * 1024\<close> and \<open>ESTIMATED_IMAGE_SIZE_KB\<close>.
\<close>

fun batchLoop :: "nat \<Rightarrow> nat \<Rightarrow> 'a list \<Rightarrow> 'a list list \<Rightarrow> 'a list \<Rightarrow> nat
    \<Rightarrow> 'a list list \<times> 'a list \<times> nat" where
  "batchLoop maxBatchSizeKB estKB [] batches currentBatch currentBatchSizeKB =
     (batches, currentBatch, currentBatchSizeKB)"
| "batchLoop maxBatchSizeKB estKB (img # rest) batches currentBatch currentBatchSizeKB =
     (if currentBatchSizeKB + estKB > maxBatchSizeKB \<and> length currentBatch > 0
      then batchLoop maxBatchSizeKB estKB rest (batches @ [currentBatch]) [img] estKB
      else batchLoop maxBatchSizeKB estKB rest batches (currentBatch @ [img])
             (currentBatchSizeKB + estKB))"

text \<open>The loop from the empty state, followed by the final push of a non-empty batch.\<close>

definition planBatches :: "nat \<Rightarrow> nat \<Rightarrow> 'a list \<Rightarrow> 'a list list" where
  "planBatches maxBatchSizeKB estKB allImages =
     (case batchLoop maxBatchSizeKB estKB allImages [] [] 0 of
        (batches, currentBatch, currentBatchSizeKB) \<Rightarrow>
          if length currentBatch > 0 then batches @ [currentBatch] else batches)"


subsection \<open>Data\<close>

text \<open>
  Strings are lists of code units (8-bit in this model). An error object carries its
  message and the \<open>status\<close> property that the provider's SDK sets on API errors;
  \<open>new Error(msg)\<close> has no status.
\<close>

datatype js_error = Error (message: string) (status: "int option")

text \<open>A message as \<open>fetchEmailsWithImagesForDateRange\<close> returns it.\<close>

record email =
  eid :: string
  esubject :: "string option"
  esender :: "string option"
  etextContent :: "string option"
  imageUrls :: "string list"

text \<open>One entry of \<open>allImages\<close>: an image URL with the context of its email.\<close>

record image =
  imageUrl :: string
  emailId :: string
  subject :: "string option"
  sender :: "string option"
  textContent :: "string option"

text \<open>The result of \<open>imageUrlToBase64\<close>.\<close>

record resolved =
  mediaType :: string
  base64Data :: string

text \<open>
  A content block of the request: \<open>{type: 'text', text}\<close> or
  \<open>{type: 'image', source: {type: 'base64', media_type, data}}\<close>.
\<close>

datatype block = Text string | Image string string

text \<open>
  The argument of \<open>anthropic.messages.create\<close>. The model name, \<open>max_tokens: 2048\<close> and
  \<open>temperature: 0.7\<close> are the same in every request and are left out; \<open>userContent\<close> is
  the content of the single user message.
\<close>

record request =
  system :: string
  userContent :: "block list"

text \<open>
  The provider's reply, read the way the code reads it, through
  \<open>response.content?.[0]?.text\<close>: \<open>content\<close> may be absent, and each item has a text or not.
\<close>

record response =
  content :: "string option list option"

text \<open>How an awaited call to the client ends: the promise resolves to a value (possibly a
  falsy one, \<open>None\<close>), or it rejects.\<close>

datatype outcome = Resolved "response option" | Rejected js_error

text \<open>
  How \<open>fetch(url)\<close> ends: it rejects, or it gives a response with its \<open>ok\<close> flag, its
  \<open>statusText\<close>, its \<open>content-type\<close> header and the result of reading the body (an error,
  or the bytes, given by their base64 encoding as \<open>buffer.toString('base64')\<close> returns it).
\<close>

datatype fetch_outcome =
  FetchRejected js_error
| FetchResponse bool string "string option" "js_error + string"

text \<open>
  The value \<open>JSON.parse\<close> returns: any JSON value. An object is given by the list of its
  own properties, each name once. A number is \<open>JInt n\<close> when it is an integer of magnitude below \<open>10^21\<close>,
  which \<open>ToString\<close> prints in decimal (\<open>-0\<close> is \<open>JInt 0\<close>); any other number (a fraction, a
  larger magnitude, an infinity from an overflowing literal) is \<open>JNum s\<close>, with \<open>s\<close> the
  text \<open>ToString\<close> prints for it. The module uses a number of the reply as a property key,
  in a truth test, or passes it on, and nothing else.
\<close>

datatype json =
  JNull
| JBool bool
| JInt int
| JNum string
| JStr string
| JArr "json list"
| JObj "(string \<times> json) list"

text \<open>
  A generated post (the object literal both modes return). The caption is whatever value
  the reply holds under \<open>caption\<close>, or \<open>undefined\<close> (\<open>None\<close>); \<open>email_id\<close> and
  \<open>source_image_url\<close> are \<open>undefined\<close> when what \<open>processBatch\<close> took for the image has no
  such property; \<open>source_image_urls\<close> is a list or \<open>null\<close>.
\<close>

record post =
  caption_text :: "json option"
  email_id :: "string option"
  source_image_url :: "string option"
  source_image_urls :: "string list option"
  created_at :: string

text \<open>
  What the module reaches outside itself: the client \<open>anthropic\<close> (\<open>None\<close> when
  \<open>CLAUDE_API_KEY\<close> is unset), the global \<open>fetch\<close>, \<open>JSON.parse\<close> (\<open>None\<close> when it throws) and
  the clock behind \<open>new Date().toISOString()\<close>. The client, \<open>fetch\<close> and the clock take the
  number of earlier calls, so that successive calls may answer differently. \<open>inherited\<close>
  tells which names are properties that an array inherits from \<open>Array.prototype\<close> and
  \<open>Object.prototype\<close> (\<open>map\<close>, \<open>constructor\<close>, ...), a set that depends on the version of the
  runtime; the value of each is a function or an object.
\<close>

record env =
  anthropic :: "(nat \<Rightarrow> request \<Rightarrow> outcome) option"
  fetch :: "nat \<Rightarrow> string \<Rightarrow> fetch_outcome"
  JSON_parse :: "string \<Rightarrow> json option"
  inherited :: "string \<Rightarrow> bool"
  Date_now :: "nat \<Rightarrow> string"

text \<open>
  The effects of a run, as a trace in the order they happen: a request sent to the client,
  a delay passed to \<open>setTimeout\<close> (milliseconds) and awaited, a URL handed to \<open>fetch\<close>. The
  clock readings are counted. Console output is not modelled.
\<close>

datatype event = Call request | Sleep nat | Fetch string

record world =
  events :: "event list"
  clockReads :: nat

fun isCall :: "event \<Rightarrow> bool" where
  "isCall (Call req) = True"
| "isCall ev = False"

fun isFetch :: "event \<Rightarrow> bool" where
  "isFetch (Fetch url) = True"
| "isFetch ev = False"

definition callCount :: "world \<Rightarrow> nat" where
  "callCount w = length (filter isCall (events w))"

definition fetchCount :: "world \<Rightarrow> nat" where
  "fetchCount w = length (filter isFetch (events w))"

definition emit :: "event \<Rightarrow> world \<Rightarrow> world" where
  "emit ev w = w\<lparr>events := events w @ [ev]\<rparr>"

subsection \<open>Resolving an image\<close>

text \<open>\<open>fetchImageAsBase64(url)\<close>.\<close>

definition fetchImageAsBase64 :: "env \<Rightarrow> world \<Rightarrow> string \<Rightarrow> (js_error + resolved) \<times> world" where
  "fetchImageAsBase64 e w url =
     (let w' = emit (Fetch url) w in
      case fetch e (fetchCount w) url of
        FetchRejected err \<Rightarrow> (Inl err, w')
      | FetchResponse ok statusText contentType body \<Rightarrow>
          if \<not> ok
          then (Inl (Error (''Failed to fetch image from '' @ url @ '': '' @ statusText) None), w')
          else (case body of
                  Inl err \<Rightarrow> (Inl err, w')
                | Inr base64 \<Rightarrow>
                    (Inr \<lparr>mediaType = (case contentType of
                                          None \<Rightarrow> ''image/png''
                                        | Some t \<Rightarrow> if t = [] then ''image/png'' else t),
                          base64Data = base64\<rparr>, w')))"

text \<open>
  The match of \<open>/^data:([^;]+);base64,(.+)$/\<close>: the media type is everything up to the first
  semicolon and must not be empty; the payload is the non-empty rest, which \<open>.\<close> keeps free
  of line terminators.
\<close>

definition lineTerminator :: "char \<Rightarrow> bool" where
  "lineTerminator c = (c = CHR 0x0A \<or> c = CHR 0x0D)"

definition dataUrlMatch :: "string \<Rightarrow> (string \<times> string) option" where
  "dataUrlMatch url =
     (if take 5 url = ''data:''
      then (let rest = drop 5 url;
                mt = takeWhile (\<lambda>c. c \<noteq> CHR '';'') rest;
                after = dropWhile (\<lambda>c. c \<noteq> CHR '';'') rest;
                payload = drop 8 after
            in if mt \<noteq> [] \<and> take 8 after = '';base64,'' \<and> payload \<noteq> []
                  \<and> list_all (\<lambda>c. \<not> lineTerminator c) payload
               then Some (mt, payload) else None)
      else None)"

definition startsWith :: "string \<Rightarrow> string \<Rightarrow> bool" where
  "startsWith s p = (take (length p) s = p)"

text \<open>\<open>imageUrlToBase64(imageUrl)\<close>.\<close>

definition imageUrlToBase64 :: "env \<Rightarrow> world \<Rightarrow> string \<Rightarrow> (js_error + resolved) \<times> world" where
  "imageUrlToBase64 e w url =
     (case dataUrlMatch url of
        Some (mt, payload) \<Rightarrow> (Inr \<lparr>mediaType = mt, base64Data = payload\<rparr>, w)
      | None \<Rightarrow>
          if startsWith url ''http://'' \<or> startsWith url ''https://''
          then fetchImageAsBase64 e w url
          else (Inl (Error (''Invalid image URL format: '' @ url) None), w))"

text \<open>
  The test \<open>sizeInMB > 5\<close> with \<open>sizeInMB = (base64Data.length * 0.75) / (1024 * 1024)\<close>.
  Both operations are exact in doubles for any string length, so the test is
  \<open>3 * length > 5 * 4 * 1024 * 1024\<close>.
\<close>

definition tooLarge :: "string \<Rightarrow> bool" where
  "tooLarge base64 = (20971520 < 3 * length base64)"

subsection \<open>Prompt texts\<close>

text \<open>Decimal rendering of a number inside a template literal.\<close>

fun showNat :: "nat \<Rightarrow> string" where
  "showNat n =
     (if n < 10 then [''0123456789'' ! n]
      else showNat (n div 10) @ [''0123456789'' ! (n mod 10)])"

declare showNat.simps [simp del]

text \<open>
  The parameter \<open>date\<close> of both entry points is given by its \<open>toISOString()\<close>;
  \<open>isoDay\<close> is \<open>.split('T')[0]\<close>.
\<close>

definition isoDay :: "string \<Rightarrow> string" where
  "isoDay date = takeWhile (\<lambda>c. c \<noteq> CHR ''T'') date"

text \<open>\<open>x ?? d\<close> on an optional string.\<close>

definition orElse :: "string option \<Rightarrow> string \<Rightarrow> string" where
  "orElse x d = (case x of None \<Rightarrow> d | Some s \<Rightarrow> s)"

definition batchIntro :: "string \<Rightarrow> nat \<Rightarrow> string" where
  \<open>batchIntro date n =
     ''You are a social media manager for a school. Today's date is '' @ isoDay date @ ''.\<newline>'' @
     ''\<newline>'' @
     ''You will review '' @ showNat n @ '' images with their associated email content from today. Your task is to:\<newline>'' @
     ''\<newline>'' @
     ''1. Review all the images and their associated email content\<newline>'' @
     ''2. Select the 3-5 BEST image+caption combinations that would work great for Instagram\<newline>'' @
     ''3. For each selected image, write an engaging Instagram caption (max 60 words, upbeat, mention key details)\<newline>'' @
     ''\<newline>'' @
     ''Focus on images that are:\<newline>'' @
     ''- Visually appealing and clear\<newline>'' @
     ''- Show engaging activities or moments\<newline>'' @
     ''- Would resonate with parents and students\<newline>'' @
     ''\<newline>'' @
     ''Here are the images with their context:\<newline>\<newline>''\<close>

definition batchImageContext :: "nat \<Rightarrow> image \<Rightarrow> string" where
  \<open>batchImageContext imageIndex img =
     ''--- Image '' @ showNat (imageIndex + 1) @ '' ---\<newline>'' @
     ''Subject: '' @ orElse (subject img) ''No subject'' @ ''\<newline>'' @
     ''From: '' @ orElse (sender img) ''Unknown'' @ ''\<newline>'' @
     ''Text content: '' @ take 1500 (orElse (textContent img) []) @ ''\<newline>''\<close>

definition batchInstructions :: string where
  \<open>batchInstructions =
     ''\<newline>\<newline>Now, select the 3-5 best image+caption combinations. Respond in valid JSON with this exact shape:\<newline>'' @
     ''{\<newline>'' @
     ''  "selections": [\<newline>'' @
     ''    {\<newline>'' @
     ''      "image_index": 0,\<newline>'' @
     ''      "caption": "Your engaging Instagram caption here...",\<newline>'' @
     ''      "reasoning": "Brief explanation of why this image works well"\<newline>'' @
     ''    }\<newline>'' @
     ''  ]\<newline>'' @
     ''}\<newline>'' @
     ''\<newline>'' @
     ''The image_index is 0-based (Image 1 = index 0).\<newline>'' @
     ''Make sure to pick the most visually appealing and engaging combinations.''\<close>

definition batchSystem :: string where
  \<open>batchSystem = ''You are an expert social media manager for schools. You have a great eye for selecting engaging photos and writing compelling Instagram captions.''\<close>

definition plural :: "nat \<Rightarrow> string" where
  "plural n = (if n > 1 then ''s'' else [])"

definition combinedIntro :: "string \<Rightarrow> nat \<Rightarrow> string" where
  \<open>combinedIntro date n =
     ''You are a social media manager for a school. Today's date is '' @ isoDay date @ ''.\<newline>'' @
     ''\<newline>'' @
     ''A user has selected '' @ showNat n @ '' image'' @ plural n @ '' to create an Instagram post.\<newline>'' @
     ''\<newline>'' @
     ''Your task is to:\<newline>'' @
     ''1. Review all '' @ showNat n @ '' image'' @ plural n @ '' and their associated email content\<newline>'' @
     ''2. Write ONE engaging Instagram caption that captures the essence of all the images together\<newline>'' @
     ''3. The caption should be engaging, upbeat, and mention key details\<newline>'' @
     ''4. Maximum 60 words\<newline>'' @
     ''\<newline>'' @
     ''Here are the selected images:\<newline>\<newline>''\<close>

definition combinedImageContext :: "nat \<Rightarrow> image \<Rightarrow> string" where
  \<open>combinedImageContext index img =
     ''--- Image '' @ showNat (index + 1) @ '' ---\<newline>'' @
     ''Subject: '' @ orElse (subject img) ''No subject'' @ ''\<newline>'' @
     ''From: '' @ orElse (sender img) ''Unknown'' @ ''\<newline>'' @
     ''Text: '' @ take 500 (orElse (textContent img) []) @ ''\<newline>''\<close>

definition combinedInstructions :: "nat \<Rightarrow> string" where
  \<open>combinedInstructions n =
     ''\<newline>\<newline>Now write a single Instagram caption that captures all '' @ showNat n @ '' image'' @ plural n @
       ''. Respond in valid JSON with this exact shape:\<newline>'' @
     ''{\<newline>'' @
     ''  "caption": "Your engaging Instagram caption here...",\<newline>'' @
     ''  "reasoning": "Brief explanation of your caption choice"\<newline>'' @
     ''}\<newline>'' @
     ''\<newline>'' @
     ''Make the caption upbeat, engaging, and suitable for parents and students.''\<close>

definition combinedSystem :: string where
  \<open>combinedSystem = ''You are an expert social media manager for schools. You have a great eye for crafting compelling Instagram captions that capture multiple moments and activities.''\<close>

subsection \<open>Building the content of a request\<close>

text \<open>
  The image loop of \<open>processBatch\<close>. \<open>contentBlocks\<close> is the array being pushed to; an image
  over 5MB leaves the iteration by \<open>continue\<close>, a failed resolution is caught and the
  iteration goes on to the closing newline block.
\<close>

fun batchImageBlocks :: "env \<Rightarrow> nat \<Rightarrow> image list \<Rightarrow> block list \<Rightarrow> world \<Rightarrow> block list \<times> world" where
  "batchImageBlocks e imageIndex [] contentBlocks w = (contentBlocks, w)"
| "batchImageBlocks e imageIndex (img # rest) contentBlocks w =
     (let blocks1 = contentBlocks @ [Text (batchImageContext imageIndex img)] in
      case imageUrlToBase64 e w (imageUrl img) of
        (Inr r, w1) \<Rightarrow>
          if tooLarge (base64Data r)
          then batchImageBlocks e (imageIndex + 1) rest blocks1 w1
          else batchImageBlocks e (imageIndex + 1) rest
                 (blocks1 @ [Image (mediaType r) (base64Data r)] @ [Text ''\<newline>'']) w1
      | (Inl err, w1) \<Rightarrow>
          batchImageBlocks e (imageIndex + 1) rest (blocks1 @ [Text ''\<newline>'']) w1)"

definition batchContent :: "env \<Rightarrow> world \<Rightarrow> image list \<Rightarrow> string \<Rightarrow> block list \<times> world" where
  "batchContent e w batch date =
     (case batchImageBlocks e 0 batch [Text (batchIntro date (length batch))] w of
        (contentBlocks, w1) \<Rightarrow> (contentBlocks @ [Text batchInstructions], w1))"

text \<open>The image loop of \<open>generateCombinedPost\<close>.\<close>

fun combinedImageBlocks :: "env \<Rightarrow> nat \<Rightarrow> image list \<Rightarrow> block list \<Rightarrow> world \<Rightarrow> block list \<times> world" where
  "combinedImageBlocks e index [] contentBlocks w = (contentBlocks, w)"
| "combinedImageBlocks e index (img # rest) contentBlocks w =
     (let blocks1 = contentBlocks @ [Text (combinedImageContext index img)] in
      case imageUrlToBase64 e w (imageUrl img) of
        (Inr r, w1) \<Rightarrow>
          if tooLarge (base64Data r)
          then combinedImageBlocks e (index + 1) rest
                 (blocks1 @ [Text ''[Image too large to process]\<newline>'']) w1
          else combinedImageBlocks e (index + 1) rest
                 (blocks1 @ [Image (mediaType r) (base64Data r)] @ [Text ''\<newline>'']) w1
      | (Inl err, w1) \<Rightarrow>
          combinedImageBlocks e (index + 1) rest
            (blocks1 @ [Text ''[Image could not be loaded]\<newline>''] @ [Text ''\<newline>'']) w1)"

definition combinedContent :: "env \<Rightarrow> world \<Rightarrow> image list \<Rightarrow> string \<Rightarrow> block list \<times> world" where
  "combinedContent e w images date =
     (case combinedImageBlocks e 0 images [Text (combinedIntro date (length images))] w of
        (contentBlocks, w1) \<Rightarrow> (contentBlocks @ [Text (combinedInstructions (length images))], w1))"

subsection \<open>Calling the client\<close>

definition retries :: nat where
  "retries = 3"

text \<open>
  The retry loop, which \<open>processBatch\<close> and \<open>generateCombinedPost\<close> both contain, word for
  word except for the system prompt inside the request. Its state is the counter \<open>i\<close> and
  \<open>lastError\<close>. It ends by \<open>throw error\<close> (\<open>Inl\<close>), or by leaving the loop with the values of
  \<open>response\<close> and \<open>lastError\<close> (\<open>Inr\<close>).
\<close>

function retryLoop :: "(nat \<Rightarrow> request \<Rightarrow> outcome) \<Rightarrow> request \<Rightarrow> nat \<Rightarrow> js_error option \<Rightarrow> world
    \<Rightarrow> (js_error + response option \<times> js_error option) \<times> world" where
  "retryLoop client req i lastError w =
     (if i < retries
      then (let w1 = emit (Call req) w in
            case client (callCount w) req of
              Resolved r \<Rightarrow> (Inr (r, lastError), w1)
            | Rejected err \<Rightarrow>
                if status err = Some 529 \<and> i < retries - 1
                then retryLoop client req (i + 1) (Some err) (emit (Sleep ((i + 1) * 2000)) w1)
                else (Inl err, w1))
      else (Inr (None, lastError), w))"
  by pat_completeness auto
termination
  by (relation "measure (\<lambda>(client, req, i, lastError, w). retries - i)") auto

declare retryLoop.simps [simp del]

text \<open>The loop from \<open>i = 0\<close>, and the check \<open>if (!response) throw lastError || new Error(...)\<close>
  that follows it.\<close>

definition createWithRetry :: "(nat \<Rightarrow> request \<Rightarrow> outcome) \<Rightarrow> request \<Rightarrow> world
    \<Rightarrow> (js_error + response) \<times> world" where
  "createWithRetry client req w =
     (case retryLoop client req 0 None w of
        (Inl err, w1) \<Rightarrow> (Inl err, w1)
      | (Inr (None, lastError), w1) \<Rightarrow>
          (Inl (case lastError of
                  Some err \<Rightarrow> err
                | None \<Rightarrow> Error ''Failed to get response from Claude'' None), w1)
      | (Inr (Some r, lastError), w1) \<Rightarrow> (Inr r, w1))"

text \<open>
  The call as the two functions make it, through the module variable \<open>anthropic\<close>. The
  exported functions check the variable first; were it \<open>null\<close> here, reading
  \<open>anthropic.messages\<close> would throw a \<open>TypeError\<close> inside the first attempt, which has no
  status and is thrown on.
\<close>

definition sendRequest :: "env \<Rightarrow> request \<Rightarrow> world \<Rightarrow> (js_error + response) \<times> world" where
  "sendRequest e req w =
     (case anthropic e of
        None \<Rightarrow> (Inl (Error ''Cannot read properties of null (reading 'messages')'' None), w)
      | Some client \<Rightarrow> createWithRetry client req w)"

subsection \<open>Reading the reply\<close>

text \<open>\<open>response.content?.[0]?.text ?? '{}'\<close>.\<close>

definition messageContent :: "response \<Rightarrow> string" where
  "messageContent r =
     (case content r of
        None \<Rightarrow> ''{}''
      | Some [] \<Rightarrow> ''{}''
      | Some (None # _) \<Rightarrow> ''{}''
      | Some (Some t # _) \<Rightarrow> t)"

text \<open>\<open>String.prototype.trim\<close>: the white space and line terminators among the 8-bit code
  units.\<close>

definition isSpace :: "char \<Rightarrow> bool" where
  "isSpace c = (c \<in> set [CHR 0x09, CHR 0x0A, CHR 0x0B, CHR 0x0C, CHR 0x0D, CHR 0x20, CHR 0xA0])"

definition trim :: "string \<Rightarrow> string" where
  "trim s = rev (dropWhile isSpace (rev (dropWhile isSpace s)))"

definition endsWith :: "string \<Rightarrow> string \<Rightarrow> bool" where
  "endsWith s p = (length p \<le> length s \<and> drop (length s - length p) s = p)"

text \<open>
  The fence stripping both functions apply before \<open>JSON.parse\<close>: after \<open>trim\<close>, when the text
  starts with three backticks, \<open>replace(/^```(?:json|JSON)?\n?/, '')\<close> and then
  \<open>replace(/\n?```$/, '')\<close>.
\<close>

definition stripCodeFences :: "string \<Rightarrow> string" where
  "stripCodeFences text =
     (let jsonString = trim text in
      if startsWith jsonString ''```''
      then (let s1 = drop 3 jsonString;
                s2 = (if startsWith s1 ''json'' \<or> startsWith s1 ''JSON'' then drop 4 s1 else s1);
                s3 = (if startsWith s2 ''\<newline>'' then drop 1 s2 else s2)
            in if endsWith s3 ''\<newline>```'' then take (length s3 - 4) s3
               else if endsWith s3 ''```'' then take (length s3 - 3) s3
               else s3)
      else jsonString)"

text \<open>
  Reading the property \<open>name\<close> of a JSON value, for the names this module reads
  (\<open>selections\<close>, \<open>image_index\<close>, \<open>caption\<close>), which no built-in prototype defines: on \<open>null\<close>
  a \<open>TypeError\<close>, on an object its own property or \<open>undefined\<close> (\<open>None\<close>), on any other
  value \<open>undefined\<close>.
\<close>

definition own :: "string \<Rightarrow> json \<Rightarrow> json option" where
  "own name v = (case v of JObj props \<Rightarrow> map_of props name | _ \<Rightarrow> None)"

definition property :: "string \<Rightarrow> json \<Rightarrow> js_error + json option" where
  "property name v =
     (if v = JNull
      then Inl (Error (''Cannot read properties of null (reading '' @ [CHR 0x27] @ name @ [CHR 0x27] @ '')'') None)
      else Inr (own name v))"

text \<open>The truth test \<open>!x\<close> on a JSON value: \<open>null\<close>, \<open>false\<close>, zero and the empty string are
  falsy.\<close>

definition truthy :: "json \<Rightarrow> bool" where
  "truthy v =
     (case v of
        JNull \<Rightarrow> False
      | JBool b \<Rightarrow> b
      | JInt n \<Rightarrow> n \<noteq> 0
      | JNum s \<Rightarrow> True
      | JStr s \<Rightarrow> s \<noteq> []
      | JArr xs \<Rightarrow> True
      | JObj props \<Rightarrow> True)"

text \<open>The decimal text of an integer, which is what \<open>ToString\<close> gives for a number
  \<open>JInt n\<close>.\<close>

definition showInt :: "int \<Rightarrow> string" where
  "showInt n = (if n < 0 then CHR ''-'' # showNat (nat (- n)) else showNat (nat n))"

text \<open>
  \<open>ToString\<close> of a JSON value, as the conversion of a property key applies it. An array
  is joined with commas (\<open>Array.prototype.join\<close>), \<open>null\<close> elements giving the empty string.
  An object gives \<open>[object Object]\<close>, unless it has an own property \<open>toString\<close>: that value
  is not callable, \<open>valueOf\<close> returns the object itself, and the conversion throws a
  \<open>TypeError\<close>.
\<close>

fun toStr :: "json \<Rightarrow> js_error + string"
  and joinStr :: "json list \<Rightarrow> js_error + string" where
  "toStr JNull = Inr ''null''"
| "toStr (JBool b) = Inr (if b then ''true'' else ''false'')"
| "toStr (JInt n) = Inr (showInt n)"
| "toStr (JNum s) = Inr s"
| "toStr (JStr s) = Inr s"
| "toStr (JArr xs) = joinStr xs"
| "toStr (JObj props) =
     (if map_of props ''toString'' \<noteq> None
      then Inl (Error ''Cannot convert object to primitive value'' None)
      else Inr ''[object Object]'')"
| "joinStr [] = Inr []"
| "joinStr (x # xs) =
     (case (if x = JNull then Inr [] else toStr x) of
        Inl err \<Rightarrow> Inl err
      | Inr s \<Rightarrow>
          if xs = [] then Inr s
          else (case joinStr xs of
                  Inl err \<Rightarrow> Inl err
                | Inr t \<Rightarrow> Inr (s @ '','' @ t)))"

text \<open>The property key of \<open>batch[x]\<close>; \<open>x\<close> is \<open>None\<close> when it is \<open>undefined\<close>.\<close>

definition propertyKey :: "json option \<Rightarrow> js_error + string" where
  "propertyKey x = (case x of None \<Rightarrow> Inr ''undefined'' | Some v \<Rightarrow> toStr v)"

text \<open>
  What \<open>batch[key]\<close> finds, as far as \<open>processBatch\<close> tells the cases apart: a falsy value
  (\<open>undefined\<close>, or the length of an empty array), an image of the batch, or another truthy
  value. The own properties of the array \<open>batch\<close> are its elements, named by the decimal
  text of their index, and \<open>length\<close>; the other properties are inherited.
\<close>

datatype lookup = Falsy | Element image | Other

definition batchAt :: "env \<Rightarrow> image list \<Rightarrow> string \<Rightarrow> lookup" where
  "batchAt e batch key =
     (case find (\<lambda>i. showNat i = key) [0..<length batch] of
        Some i \<Rightarrow> Element (batch ! i)
      | None \<Rightarrow>
          if key = ''length'' then (if length batch = 0 then Falsy else Other)
          else if inherited e key then Other
          else Falsy)"

text \<open>
  \<open>parsed.selections.map(...)\<close> of \<open>processBatch\<close>. For each entry: \<open>selection.image_index\<close>
  is read and converted to a property key of \<open>batch\<close>, either of which may throw and end the
  iteration; a falsy \<open>image\<close> gives \<open>null\<close> (\<open>None\<close>); otherwise the entry, which is not
  \<open>null\<close> at that point, gives a post, stamped with a reading of the clock. When \<open>image\<close>
  is not an element of the batch (a number, a function, a prototype object), its
  \<open>imageUrl\<close> and \<open>emailId\<close> are \<open>undefined\<close>.
\<close>

fun selectionPosts :: "env \<Rightarrow> image list \<Rightarrow> json list \<Rightarrow> world
    \<Rightarrow> (js_error + post option list) \<times> world" where
  "selectionPosts e batch [] w = (Inr [], w)"
| "selectionPosts e batch (sel # rest) w =
     (case property ''image_index'' sel of
        Inl err \<Rightarrow> (Inl err, w)
      | Inr idx \<Rightarrow>
          (case propertyKey idx of
             Inl err \<Rightarrow> (Inl err, w)
           | Inr key \<Rightarrow>
               (case batchAt e batch key of
                  Falsy \<Rightarrow>
                    (case selectionPosts e batch rest w of
                       (Inl err, w') \<Rightarrow> (Inl err, w')
                     | (Inr ps, w') \<Rightarrow> (Inr (None # ps), w'))
                | found \<Rightarrow>
                    (let url = (case found of Element img \<Rightarrow> Some (imageUrl img) | _ \<Rightarrow> None);
                         urls = (case url of
                                   Some u \<Rightarrow> if u \<noteq> [] then [u] else []
                                 | None \<Rightarrow> []);
                         p = \<lparr>caption_text = own ''caption'' sel,
                              email_id = (case found of
                                            Element img \<Rightarrow> Some (emailId img)
                                          | _ \<Rightarrow> None),
                              source_image_url = url,
                              source_image_urls = (if length urls > 0 then Some urls else None),
                              created_at = Date_now e (clockReads w)\<rparr>
                     in case selectionPosts e batch rest (w\<lparr>clockReads := clockReads w + 1\<rparr>) of
                          (Inl err, w') \<Rightarrow> (Inl err, w')
                        | (Inr ps, w') \<Rightarrow> (Inr (Some p # ps), w')))))"

text \<open>\<open>.filter(Boolean)\<close> on an array of objects and \<open>null\<close>s.\<close>

fun filterBoolean :: "'a option list \<Rightarrow> 'a list" where
  "filterBoolean [] = []"
| "filterBoolean (None # xs) = filterBoolean xs"
| "filterBoolean (Some x # xs) = x # filterBoolean xs"

subsection \<open>Selection mode\<close>

text \<open>
  \<open>processBatch(batch, date, batchIndex)\<close>: build the content, call the client, read the
  reply. Whatever is thrown while the reply is read is caught and replaced by the error
  \<open>Claude response parsing failed\<close>.
\<close>

definition processBatch :: "env \<Rightarrow> world \<Rightarrow> image list \<Rightarrow> string \<Rightarrow> nat \<Rightarrow> (js_error + post list) \<times> world" where
  "processBatch e w batch date batchIndex =
     (case batchContent e w batch date of
        (contentBlocks, w1) \<Rightarrow>
          (case sendRequest e \<lparr>system = batchSystem, userContent = contentBlocks\<rparr> w1 of
             (Inl err, w2) \<Rightarrow> (Inl err, w2)
           | (Inr r, w2) \<Rightarrow>
               (case JSON_parse e (stripCodeFences (messageContent r)) of
                  None \<Rightarrow> (Inl (Error ''Claude response parsing failed'' None), w2)
                | Some parsed \<Rightarrow>
                    (case property ''selections'' parsed of
                       Inl err \<Rightarrow> (Inl (Error ''Claude response parsing failed'' None), w2)
                     | Inr (Some (JArr sels)) \<Rightarrow>
                         if length sels = 0 then (Inr [], w2)
                         else (case selectionPosts e batch sels w2 of
                                 (Inl err, w3) \<Rightarrow>
                                   (Inl (Error ''Claude response parsing failed'' None), w3)
                               | (Inr captions, w3) \<Rightarrow> (Inr (filterBoolean captions), w3))
                     | Inr _ \<Rightarrow> (Inr [], w2)))))"

text \<open>
  The \<open>for (let batchIndex = 0; ...)\<close> loop of \<open>generateInstagramCaptions\<close> over the batches
  still to be processed, with \<open>allPosts\<close> as accumulator. An error thrown by \<open>processBatch\<close>
  leaves the function; \<open>break\<close> leaves the loop.
\<close>

fun batchesLoop :: "env \<Rightarrow> string \<Rightarrow> nat \<Rightarrow> image list list \<Rightarrow> post list \<Rightarrow> world
    \<Rightarrow> (js_error + post list) \<times> world" where
  "batchesLoop e date batchIndex [] allPosts w = (Inr allPosts, w)"
| "batchesLoop e date batchIndex (batch # rest) allPosts w =
     (case processBatch e w batch date batchIndex of
        (Inl err, w1) \<Rightarrow> (Inl err, w1)
      | (Inr posts, w1) \<Rightarrow>
          (let allPosts1 = allPosts @ posts in
           if length allPosts1 \<ge> 3 then (Inr allPosts1, w1)
           else batchesLoop e date (batchIndex + 1) rest allPosts1 w1))"

text \<open>The flattening of the emails into \<open>allImages\<close>.\<close>

definition flattenImages :: "email list \<Rightarrow> image list" where
  "flattenImages emails =
     concat (map (\<lambda>email.
       map (\<lambda>url. \<lparr>imageUrl = url, emailId = eid email, subject = esubject email,
                    sender = esender email, textContent = etextContent email\<rparr>)
           (imageUrls email)) emails)"

text \<open>\<open>generateInstagramCaptions({ emails, date })\<close>; \<open>emails\<close> is \<open>None\<close> when absent.\<close>

definition generateInstagramCaptions :: "env \<Rightarrow> world \<Rightarrow> email list option \<Rightarrow> string
    \<Rightarrow> (js_error + post list) \<times> world" where
  "generateInstagramCaptions e w emails date =
     (case anthropic e of
        None \<Rightarrow> (Inl (Error ''Claude client not configured'' None), w)
      | Some client \<Rightarrow>
          (case emails of
             None \<Rightarrow> (Inr [], w)
           | Some es \<Rightarrow>
               if length es = 0 then (Inr [], w)
               else (let allImages = flattenImages es;
                         batches = planBatches (MAX_BATCH_SIZE_MB * 1024) ESTIMATED_IMAGE_SIZE_KB
                                     allImages
                     in case batchesLoop e date 0 batches [] w of
                          (Inl err, w1) \<Rightarrow> (Inl err, w1)
                        | (Inr allPosts, w1) \<Rightarrow> (Inr (take 5 allPosts), w1))))"

subsection \<open>Combined mode\<close>

text \<open>\<open>generateCombinedPost({ images, date })\<close>; \<open>images\<close> is \<open>None\<close> when absent.\<close>

definition generateCombinedPost :: "env \<Rightarrow> world \<Rightarrow> image list option \<Rightarrow> string
    \<Rightarrow> (js_error + post) \<times> world" where
  "generateCombinedPost e w images date =
     (case anthropic e of
        None \<Rightarrow> (Inl (Error ''Claude client not configured'' None), w)
      | Some client \<Rightarrow>
          (case images of
             None \<Rightarrow> (Inl (Error ''No images provided'' None), w)
           | Some imgs \<Rightarrow>
               if length imgs = 0 then (Inl (Error ''No images provided'' None), w)
               else if length imgs > 5 then (Inl (Error ''Maximum 5 images can be selected'' None), w)
               else (case combinedContent e w imgs date of
                 (contentBlocks, w1) \<Rightarrow>
                   (case sendRequest e \<lparr>system = combinedSystem, userContent = contentBlocks\<rparr> w1 of
                      (Inl err, w2) \<Rightarrow> (Inl err, w2)
                    | (Inr r, w2) \<Rightarrow>
                        (case JSON_parse e (stripCodeFences (messageContent r)) of
                           None \<Rightarrow> (Inl (Error ''Failed to generate caption'' None), w2)
                         | Some parsed \<Rightarrow>
                             (case property ''caption'' parsed of
                                Inl err \<Rightarrow> (Inl (Error ''Failed to generate caption'' None), w2)
                              | Inr None \<Rightarrow> (Inl (Error ''Failed to generate caption'' None), w2)
                              | Inr (Some c) \<Rightarrow>
                                  if \<not> truthy c then (Inl (Error ''Failed to generate caption'' None), w2)
                                  else (let urls = filter (\<lambda>u. u \<noteq> []) (map imageUrl imgs) in
                                        (Inr \<lparr>caption_text = Some c,
                                              email_id = Some (emailId (imgs ! 0)),
                                              source_image_url = Some (imageUrl (imgs ! 0)),
                                              source_image_urls =
                                                (if length urls > 0 then Some urls else None),
                                              created_at = Date_now e (clockReads w2)\<rparr>,
                                         w2\<lparr>clockReads := clockReads w2 + 1\<rparr>))))))))"

subsection \<open>Vocabulary of the properties\<close>

text \<open>
  The trace of \<open>k\<close> attempts at one request: a call, then for \<open>j = 1, ..., k - 1\<close> a sleep of
  \<open>j * 2000\<close> milliseconds followed by another call.
\<close>

definition retryTrace :: "request \<Rightarrow> nat \<Rightarrow> event list" where
  "retryTrace req k = Call req # concat (map (\<lambda>j. [Sleep (j * 2000), Call req]) [1..<k])"

text \<open>
  The \<open>image_index\<close> of an entry of \<open>selections\<close> when it is an integer, as the response
  schema declares it. An entry conforms when it is not \<open>null\<close> and its \<open>image_index\<close> is
  an integer or is absent.
\<close>

definition entryIndex :: "json \<Rightarrow> int option" where
  "entryIndex sel = (case own ''image_index'' sel of Some (JInt n) \<Rightarrow> Some n | _ \<Rightarrow> None)"

definition conforming :: "json \<Rightarrow> bool" where
  "conforming sel =
     (sel \<noteq> JNull \<and> (own ''image_index'' sel = None \<or> entryIndex sel \<noteq> None))"

text \<open>An entry whose \<open>image_index\<close> is an integer that lies inside the batch.\<close>

definition indexInRange :: "image list \<Rightarrow> json \<Rightarrow> bool" where
  "indexInRange batch sel =
     (case entryIndex sel of None \<Rightarrow> False | Some i \<Rightarrow> 0 \<le> i \<and> i < int (length batch))"

text \<open>The post for such an entry, created at time \<open>t\<close>: the caption of the entry with the
  email id and the URL of the image it points at.\<close>

definition postFor :: "image list \<Rightarrow> json \<Rightarrow> string \<Rightarrow> post" where
  "postFor batch sel t =
     (let img = batch ! nat (the (entryIndex sel)) in
      \<lparr>caption_text = own ''caption'' sel,
       email_id = Some (emailId img),
       source_image_url = Some (imageUrl img),
       source_image_urls = (if imageUrl img = [] then None else Some [imageUrl img]),
       created_at = t\<rparr>)"

text \<open>The entries of \<open>parsed.selections\<close> when it is an array; none otherwise.\<close>

definition selectionsOf :: "json \<Rightarrow> json list" where
  "selectionsOf parsed = (case own ''selections'' parsed of Some (JArr sels) \<Rightarrow> sels | _ \<Rightarrow> [])"

text \<open>
  A runtime with the prototypes of the standard library: no property that an array
  inherits is named \<open>undefined\<close> or by the decimal text of an integer.
\<close>

definition standardPrototypes :: "env \<Rightarrow> bool" where
  "standardPrototypes e = (\<not> inherited e ''undefined'' \<and> (\<forall>n. \<not> inherited e (showInt n)))"

text \<open>The number that a decimal text denotes.\<close>

definition digitValue :: "char \<Rightarrow> nat" where
  "digitValue c = of_char c - 48"

definition decimal :: "string \<Rightarrow> nat" where
  "decimal s = foldl (\<lambda>a c. 10 * a + digitValue c) 0 s"

text \<open>The results of resolving the images of a list one after the other, each in the
  world the previous one left.\<close>

fun resolutions :: "env \<Rightarrow> world \<Rightarrow> image list \<Rightarrow> (js_error + resolved) list" where
  "resolutions e w [] = []"
| "resolutions e w (img # rest) =
     (case imageUrlToBase64 e w (imageUrl img) of (res, w1) \<Rightarrow> res # resolutions e w1 rest)"

text \<open>
  What follows the context block of an image, by the result of its resolution: in
  combined mode a placeholder text for a failed or an oversized image, in selection mode
  nothing in their place.
\<close>

fun combinedPart :: "js_error + resolved \<Rightarrow> block list" where
  "combinedPart (Inl err) = [Text ''[Image could not be loaded]\<newline>'', Text ''\<newline>'']"
| "combinedPart (Inr r) =
     (if tooLarge (base64Data r) then [Text ''[Image too large to process]\<newline>'']
      else [Image (mediaType r) (base64Data r), Text ''\<newline>''])"

fun batchPart :: "js_error + resolved \<Rightarrow> block list" where
  "batchPart (Inl err) = [Text ''\<newline>'']"
| "batchPart (Inr r) =
     (if tooLarge (base64Data r) then []
      else [Image (mediaType r) (base64Data r), Text ''\<newline>''])"

subsection \<open>Sample inputs\<close>

text \<open>
  Concrete inputs on which the theorems below are exercised: a date, images given by
  data URLs, by a URL of an unsupported scheme and by a remote URL, an email with \<open>n\<close>
  images, and replies of the model with the values \<open>JSON.parse\<close> gives for them. The
  sample \<open>fetch\<close> answers every URL with seven million base64 characters, more than the
  5MB threshold admits.
\<close>

definition sampleDate :: string where
  "sampleDate = ''2024-05-01T09:30:00.000Z''"

definition sampleUrl :: string where
  "sampleUrl = ''data:image/png;base64,iVBORw0KGgo=''"

definition sampleImage :: image where
  "sampleImage = \<lparr>imageUrl = sampleUrl, emailId = ''email-1'', subject = Some ''Field day'',
     sender = Some ''teacher@school.example'', textContent = Some ''Photos from field day''\<rparr>"

definition sampleEmail :: "nat \<Rightarrow> email" where
  "sampleEmail n = \<lparr>eid = ''email-1'', esubject = Some ''Field day'',
     esender = Some ''teacher@school.example'', etextContent = Some ''Photos from field day'',
     imageUrls = replicate n sampleUrl\<rparr>"

definition pick :: "int \<Rightarrow> json" where
  "pick i = JObj [(''image_index'', JInt i), (''caption'', JStr ''A great day!'')]"

definition oneJson :: string where
  \<open>oneJson = ''{"selections":[{"image_index":0,"caption":"A great day!"}]}''\<close>

definition mixedJson :: string where
  \<open>mixedJson = ''{"selections":[{"image_index":0,"caption":"A great day!"},{"image_index":99,"caption":"A great day!"},{"image_index":1,"caption":"A great day!"}]}''\<close>

definition sixJson :: string where
  \<open>sixJson = ''{"selections":[{"image_index":0,"caption":"A great day!"},{"image_index":0,"caption":"A great day!"},{"image_index":0,"caption":"A great day!"},{"image_index":0,"caption":"A great day!"},{"image_index":0,"caption":"A great day!"},{"image_index":0,"caption":"A great day!"}]}''\<close>

definition garbled :: string where
  "garbled = ''Sorry, I cannot help with that.''"

definition captionJson :: string where
  \<open>captionJson = ''{"caption":"A great day!"}''\<close>

definition lengthJson :: string where
  \<open>lengthJson = ''{"selections":[{"image_index":"length","caption":"A great day!"}]}''\<close>

definition nullEntryJson :: string where
  \<open>nullEntryJson = ''{"selections":[{"image_index":0,"caption":"A great day!"},null]}''\<close>

definition sampleParse :: "string \<Rightarrow> json option" where
  "sampleParse s =
     (if s = oneJson then Some (JObj [(''selections'', JArr [pick 0])])
      else if s = mixedJson then Some (JObj [(''selections'', JArr [pick 0, pick 99, pick 1])])
      else if s = sixJson then Some (JObj [(''selections'', JArr (replicate 6 (pick 0)))])
      else if s = lengthJson
        then Some (JObj [(''selections'',
               JArr [JObj [(''image_index'', JStr ''length''), (''caption'', JStr ''A great day!'')]])])
      else if s = nullEntryJson then Some (JObj [(''selections'', JArr [pick 0, JNull])])
      else if s = captionJson then Some (JObj [(''caption'', JStr ''A great day!'')])
      else if s = ''{}'' then Some (JObj [])
      else if s = ''null'' then Some JNull
      else None)"

text \<open>The names of the properties of \<open>Array.prototype\<close> and \<open>Object.prototype\<close> in ECMAScript
  2023.\<close>

definition prototypeNames :: "string list" where
  "prototypeNames =
     [''at'', ''concat'', ''constructor'', ''copyWithin'', ''entries'', ''every'', ''fill'',
      ''filter'', ''find'', ''findIndex'', ''findLast'', ''findLastIndex'', ''flat'', ''flatMap'',
      ''forEach'', ''includes'', ''indexOf'', ''join'', ''keys'', ''lastIndexOf'', ''map'', ''pop'',
      ''push'', ''reduce'', ''reduceRight'', ''reverse'', ''shift'', ''slice'', ''some'', ''sort'',
      ''splice'', ''toLocaleString'', ''toReversed'', ''toSorted'', ''toSpliced'', ''toString'',
      ''unshift'', ''values'', ''with'', ''hasOwnProperty'', ''isPrototypeOf'',
      ''propertyIsEnumerable'', ''valueOf'', ''__defineGetter__'', ''__defineSetter__'',
      ''__lookupGetter__'', ''__lookupSetter__'', ''__proto__'']"

definition reply :: "string \<Rightarrow> outcome" where
  "reply t = Resolved (Some \<lparr>content = Some [Some t]\<rparr>)"

definition overloadedError :: js_error where
  "overloadedError = Error ''Overloaded'' (Some 529)"

definition badRequest :: js_error where
  "badRequest = Error ''Bad request'' (Some 400)"

definition sampleEnv :: "(nat \<Rightarrow> request \<Rightarrow> outcome) \<Rightarrow> env" where
  "sampleEnv client = \<lparr>anthropic = Some client,
     fetch = (\<lambda>n url. FetchResponse True ''OK'' (Some ''image/jpeg'')
                        (Inr (replicate 7000000 (CHR ''A'')))),
     JSON_parse = sampleParse,
     inherited = (\<lambda>name. name \<in> set prototypeNames),
     Date_now = (\<lambda>n. sampleDate)\<rparr>"

definition world0 :: world where
  "world0 = \<lparr>events = [], clockReads = 0\<rparr>"

definition brokenImage :: image where
  "brokenImage = sampleImage\<lparr>imageUrl := ''ftp://school.example/a.png''\<rparr>"

definition bigImage :: image where
  "bigImage = sampleImage\<lparr>imageUrl := ''https://school.example/b.jpg''\<rparr>"

definition secondImage :: image where
  "secondImage = sampleImage\<lparr>imageUrl := ''data:image/jpeg;base64,/9j/4AAQSkZJRg=='', emailId := ''email-2''\<rparr>"

text \<open>Clients: one that always answers with the same text, one that always fails with
  the same error, one that is overloaded twice before it answers, and one that answers
  the first request and fails the later ones.\<close>

definition always :: "string \<Rightarrow> nat \<Rightarrow> request \<Rightarrow> outcome" where
  "always t n req = reply t"

definition failing :: "js_error \<Rightarrow> nat \<Rightarrow> request \<Rightarrow> outcome" where
  "failing err n req = Rejected err"

definition flaky :: "string \<Rightarrow> nat \<Rightarrow> request \<Rightarrow> outcome" where
  "flaky t n req = (if n < 2 then Rejected overloadedError else reply t)"

definition onceThenFail :: "js_error \<Rightarrow> nat \<Rightarrow> request \<Rightarrow> outcome" where
  "onceThenFail err n req = (if n = 0 then reply oneJson else Rejected err)"

section \<open>Properties\<close>

subsection \<open>Basic facts and evaluation rules\<close>

lemma callCount_emit [simp]:
  "callCount (emit (Call req) w) = callCount w + 1"
  "callCount (emit (Sleep d) w) = callCount w"
  "callCount (emit (Fetch url) w) = callCount w"
  by (simp_all add: callCount_def emit_def)

lemma events_emit [simp]: "events (emit ev w) = events w @ [ev]"
  by (simp add: emit_def)

lemma clockReads_emit [simp]: "clockReads (emit ev w) = clockReads w"
  by (simp add: emit_def)

lemma callCount_clockReads [simp]: "callCount (w\<lparr>clockReads := n\<rparr>) = callCount w"
  by (simp add: callCount_def)

text \<open>The three iterations of the retry loop, one equation each.\<close>

lemma retryLoop_2:
  "retryLoop client req (Suc (Suc 0)) lastError w =
     (case client (callCount w) req of
        Resolved r \<Rightarrow> (Inr (r, lastError), emit (Call req) w)
      | Rejected err \<Rightarrow> (Inl err, emit (Call req) w))"
  by (subst retryLoop.simps) (simp add: retries_def split: outcome.splits)

lemma retryLoop_1:
  "retryLoop client req (Suc 0) lastError w =
     (case client (callCount w) req of
        Resolved r \<Rightarrow> (Inr (r, lastError), emit (Call req) w)
      | Rejected err \<Rightarrow>
          if status err = Some 529
          then retryLoop client req (Suc (Suc 0)) (Some err) (emit (Sleep 4000) (emit (Call req) w))
          else (Inl err, emit (Call req) w))"
  by (subst retryLoop.simps) (simp add: retries_def split: outcome.splits)

lemma retryLoop_0:
  "retryLoop client req 0 lastError w =
     (case client (callCount w) req of
        Resolved r \<Rightarrow> (Inr (r, lastError), emit (Call req) w)
      | Rejected err \<Rightarrow>
          if status err = Some 529
          then retryLoop client req (Suc 0) (Some err) (emit (Sleep 2000) (emit (Call req) w))
          else (Inl err, emit (Call req) w))"
  by (subst retryLoop.simps) (simp add: retries_def split: outcome.splits)

lemma retryTrace_simps:
  "retryTrace req (Suc 0) = [Call req]"
  "retryTrace req (Suc (Suc 0)) = [Call req, Sleep 2000, Call req]"
  "retryTrace req (Suc (Suc (Suc 0))) = [Call req, Sleep 2000, Call req, Sleep 4000, Call req]"
  by (simp_all add: retryTrace_def upt_conv_Cons)

lemmas model_defs =
  generateInstagramCaptions_def flattenImages_def planBatches_def
  MAX_BATCH_SIZE_MB_def ESTIMATED_IMAGE_SIZE_KB_def
  processBatch_def batchContent_def imageUrlToBase64_def
  dataUrlMatch_def startsWith_def endsWith_def lineTerminator_def tooLarge_def fetchImageAsBase64_def
  sendRequest_def createWithRetry_def retryLoop_0 retryLoop_1 retryLoop_2
  messageContent_def stripCodeFences_def trim_def isSpace_def
  generateCombinedPost_def combinedContent_def
  property_def own_def truthy_def propertyKey_def
  callCount_def fetchCount_def emit_def Let_def

lemmas sample_defs =
  sampleDate_def sampleUrl_def sampleImage_def sampleEmail_def pick_def oneJson_def mixedJson_def
  sixJson_def lengthJson_def nullEntryJson_def garbled_def captionJson_def sampleParse_def reply_def
  overloadedError_def badRequest_def world0_def brokenImage_def bigImage_def secondImage_def
  always_def failing_def flaky_def onceThenFail_def

lemma sampleEnv_simps [simp]:
  "anthropic (sampleEnv client) = Some client"
  "JSON_parse (sampleEnv client) = sampleParse"
  "inherited (sampleEnv client) name = (name \<in> set prototypeNames)"
  "Date_now (sampleEnv client) n = sampleDate"
  "fetch (sampleEnv client) n url =
     FetchResponse True ''OK'' (Some ''image/jpeg'') (Inr (replicate 7000000 (CHR ''A'')))"
  by (simp_all add: sampleEnv_def)

lemma callCount_world0 [simp]: "callCount world0 = 0"
  by (simp add: callCount_def world0_def)

lemma replicate_6: "replicate 6 x = [x, x, x, x, x, x]"
  by (simp add: numeral_eq_Suc)

lemma replicate_5: "replicate 5 x = [x, x, x, x, x]"
  by (simp add: numeral_eq_Suc)

subsection \<open>Property keys and lookups\<close>

text \<open>The decimal text of a number denotes that number, so different indices have
  different names, and a name that does not start with a digit names no element.\<close>

lemma digitValue_nth: "k < 10 \<Longrightarrow> digitValue (''0123456789'' ! k) = k"
proof -
  assume "k < 10"
  then have "k \<in> {0, 1, 2, 3, 4, 5, 6, 7, 8, 9}" by auto
  then show ?thesis by (auto simp: digitValue_def)
qed

lemma decimal_snoc: "decimal (s @ [c]) = 10 * decimal s + digitValue c"
  by (simp add: decimal_def)

lemma decimal_showNat: "decimal (showNat n) = n"
proof (induction n rule: showNat.induct)
  case (1 n)
  show ?case
  proof (cases "n < 10")
    case True
    then show ?thesis
      by (subst showNat.simps) (simp add: decimal_def digitValue_nth)
  next
    case False
    with 1 have IH: "decimal (showNat (n div 10)) = n div 10" by simp
    have step: "showNat n = showNat (n div 10) @ [''0123456789'' ! (n mod 10)]"
      using False by (subst showNat.simps) simp
    have "decimal (showNat n) = 10 * (n div 10) + n mod 10"
      unfolding step decimal_snoc IH by (simp only: digitValue_nth [of "n mod 10"] mod_less_divisor zero_less_numeral)
    then show ?thesis by presburger
  qed
qed

lemma showNat_inj:
  assumes "showNat a = showNat b"
  shows "a = b"
proof -
  from assms have "decimal (showNat a) = decimal (showNat b)" by (rule arg_cong)
  then show ?thesis unfolding decimal_showNat .
qed

lemma digit_nth_mem: "k < 10 \<Longrightarrow> ''0123456789'' ! k \<in> set ''0123456789''"
  by (rule nth_mem) simp

lemma showNat_hd: "showNat n \<noteq> [] \<and> hd (showNat n) \<in> set ''0123456789''"
proof (induction n rule: showNat.induct)
  case (1 n)
  show ?case
  proof (cases "n < 10")
    case True
    then show ?thesis
      using digit_nth_mem [of n] by (subst (1 2) showNat.simps) simp
  next
    case False
    with 1 have "showNat (n div 10) \<noteq> [] \<and> hd (showNat (n div 10)) \<in> set ''0123456789''" by simp
    with False show ?thesis
      by (subst (1 2) showNat.simps) simp
  qed
qed

lemma showInt_hd: "showInt n \<noteq> [] \<and> hd (showInt n) \<in> set ''-0123456789''"
  using showNat_hd [of "nat n"] by (auto simp: showInt_def)

lemma find_showNat: "find (\<lambda>i. showNat i = showNat n) [0..<m] = (if n < m then Some n else None)"
proof (cases "n < m")
  case True
  then have "find (\<lambda>i. showNat i = showNat n) [0..<m] \<noteq> None"
    by (auto simp: find_None_iff)
  then obtain x where x: "find (\<lambda>i. showNat i = showNat n) [0..<m] = Some x" by auto
  then have "showNat x = showNat n" by (auto simp: find_Some_iff)
  then have "x = n" by (rule showNat_inj)
  with x True show ?thesis by simp
next
  case False
  then have "find (\<lambda>i. showNat i = showNat n) [0..<m] = None"
    by (auto simp: find_None_iff dest: showNat_inj)
  with False show ?thesis by simp
qed

lemma find_not_decimal:
  "key = [] \<or> hd key \<notin> set ''0123456789'' \<Longrightarrow> find (\<lambda>i. showNat i = key) [0..<m] = None"
  using showNat_hd by (auto simp: find_None_iff)

lemma batchAt_int:
  assumes "standardPrototypes e"
  shows "batchAt e batch (showInt n) =
     (if 0 \<le> n \<and> n < int (length batch) then Element (batch ! nat n) else Falsy)"
proof -
  have len: "showInt n \<noteq> ''length''"
    using showInt_hd [of n] by auto
  have inh: "\<not> inherited e (showInt n)"
    using assms by (simp add: standardPrototypes_def)
  show ?thesis
  proof (cases "0 \<le> n")
    case True
    then have "showInt n = showNat (nat n)" by (simp add: showInt_def)
    with True len inh show ?thesis
      by (auto simp: batchAt_def find_showNat)
  next
    case False
    then have "hd (showInt n) \<notin> set ''0123456789''" by (simp add: showInt_def)
    then have "find (\<lambda>i. showNat i = showInt n) [0..<length batch] = None"
      by (rule find_not_decimal [OF disjI2])
    with False len inh show ?thesis
      by (simp add: batchAt_def)
  qed
qed

lemma batchAt_undefined:
  assumes "standardPrototypes e"
  shows "batchAt e batch ''undefined'' = Falsy"
proof -
  have "find (\<lambda>i. showNat i = ''undefined'') [0..<length batch] = None"
    by (rule find_not_decimal) simp
  with assms show ?thesis
    by (simp add: batchAt_def standardPrototypes_def)
qed

lemma standardPrototypes_sampleEnv: "standardPrototypes (sampleEnv client)"
proof -
  have "showInt n \<notin> set prototypeNames" for n
    using showInt_hd [of n] by (auto simp: prototypeNames_def)
  then show ?thesis
    by (simp add: standardPrototypes_def sampleEnv_def prototypeNames_def)
qed

subsection \<open>The batch planner\<close>

lemma batchLoop_concat:
  "batchLoop C w xs bs cur k = (bs', cur', k') \<Longrightarrow> concat bs' @ cur' = concat bs @ cur @ xs"
  by (induction xs arbitrary: bs cur k) (auto split: if_splits)

text \<open>
  The loop keeps three facts about every closed batch \<open>b\<close>: it is not empty, it fits the
  ceiling once it has two or more images, and one more image would not have fitted. The
  open batch fits as well, as long as the running size is its length times the estimate.
\<close>

lemma batchLoop_inv:
  assumes "batchLoop C w xs bs cur k = (bs', cur', k')"
    and "k = length cur * w"
    and "\<forall>b\<in>set bs. b \<noteq> [] \<and> (2 \<le> length b \<longrightarrow> length b * w \<le> C) \<and> C < length b * w + w"
    and "2 \<le> length cur \<longrightarrow> length cur * w \<le> C"
  shows "(\<forall>b\<in>set bs'. b \<noteq> [] \<and> (2 \<le> length b \<longrightarrow> length b * w \<le> C) \<and> C < length b * w + w)
    \<and> (2 \<le> length cur' \<longrightarrow> length cur' * w \<le> C)"
  using assms
proof (induction xs arbitrary: bs cur k)
  case Nil
  then show ?case by simp
next
  case (Cons x xs)
  show ?case
  proof (cases "k + w > C \<and> length cur > 0")
    case True
    with Cons.prems(1) have run: "batchLoop C w xs (bs @ [cur]) [x] w = (bs', cur', k')"
      by simp
    have k: "w = length [x] * w" by simp
    have closed: "\<forall>b\<in>set (bs @ [cur]). b \<noteq> [] \<and> (2 \<le> length b \<longrightarrow> length b * w \<le> C) \<and> C < length b * w + w"
    proof
      fix b assume "b \<in> set (bs @ [cur])"
      then have "b \<in> set bs \<or> b = cur" by auto
      moreover have "cur \<noteq> [] \<and> (2 \<le> length cur \<longrightarrow> length cur * w \<le> C) \<and> C < length cur * w + w"
        using True Cons.prems(2,4) by auto
      ultimately show "b \<noteq> [] \<and> (2 \<le> length b \<longrightarrow> length b * w \<le> C) \<and> C < length b * w + w"
        using Cons.prems(3) by blast
    qed
    have one: "2 \<le> length [x] \<longrightarrow> length [x] * w \<le> C" by simp
    show ?thesis
      by (rule Cons.IH [OF run k closed one])
  next
    case False
    with Cons.prems(1) have run: "batchLoop C w xs bs (cur @ [x]) (k + w) = (bs', cur', k')"
      by auto
    have k: "k + w = length (cur @ [x]) * w"
      using Cons.prems(2) by simp
    have fits: "2 \<le> length (cur @ [x]) \<longrightarrow> length (cur @ [x]) * w \<le> C"
    proof
      assume "2 \<le> length (cur @ [x])"
      then have "cur \<noteq> []" by auto
      with False have "k + w \<le> C" by simp
      with k show "length (cur @ [x]) * w \<le> C" by simp
    qed
    show ?thesis
      by (rule Cons.IH [OF run k Cons.prems(3) fits])
  qed
qed



text \<open>
  C3. The batches, concatenated in order, are the input list: no image is dropped,
  duplicated or moved. No images give no batches, and a single image is a batch of its
  own whatever the estimate and the ceiling are, also when the estimate is above the
  ceiling.
\<close>

theorem planBatches_keeps_images:
  "concat (planBatches maxKB estKB allImages) = allImages
   \<and> planBatches maxKB estKB ([] :: 'a list) = []
   \<and> planBatches maxKB estKB [img] = [[img]]"
proof -
  obtain bs cur k where run: "batchLoop maxKB estKB allImages [] [] 0 = (bs, cur, k)"
    by (cases "batchLoop maxKB estKB allImages [] [] 0") auto
  from batchLoop_concat [OF run] have "concat (planBatches maxKB estKB allImages) = allImages"
    by (auto simp: planBatches_def run)
  moreover have "planBatches maxKB estKB ([] :: 'a list) = []"
    by (simp add: planBatches_def)
  moreover have "planBatches maxKB estKB [img] = [[img]]"
    by (simp add: planBatches_def)
  ultimately show ?thesis by simp
qed

text \<open>
  C4. With ceiling \<open>C\<close> and per-image estimate \<open>w\<close>, every batch is non-empty and satisfies
  \<open>(size - 1) * w \<le> C\<close>; a batch of two or more images even has \<open>size * w \<le> C\<close>, so only a
  batch of one image can exceed the ceiling. The pass is greedy: every batch but the last
  was closed because one more image would have exceeded the ceiling
  (\<open>size * w + w > C\<close>).
\<close>

theorem planBatches_bound:
  "(\<forall>b\<in>set (planBatches C w xs).
      b \<noteq> [] \<and> (length b - 1) * w \<le> C \<and> (2 \<le> length b \<longrightarrow> length b * w \<le> C))
   \<and> (\<forall>i. Suc i < length (planBatches C w xs)
         \<longrightarrow> C < length (planBatches C w xs ! i) * w + w)"
proof -
  obtain bs cur k where run: "batchLoop C w xs [] [] 0 = (bs, cur, k)"
    by (cases "batchLoop C w xs [] [] 0") auto
  have inv: "(\<forall>b\<in>set bs. b \<noteq> [] \<and> (2 \<le> length b \<longrightarrow> length b * w \<le> C) \<and> C < length b * w + w)
    \<and> (2 \<le> length cur \<longrightarrow> length cur * w \<le> C)"
    using batchLoop_inv [OF run] by simp
  have weak: "(length b - 1) * w \<le> C" if "2 \<le> length b \<longrightarrow> length b * w \<le> C" for b :: "'a list"
  proof (cases "2 \<le> length b")
    case True
    have "(length b - 1) * w \<le> length b * w" by (simp add: mult_le_mono1)
    moreover have "length b * w \<le> C" using True that by simp
    ultimately show ?thesis by (rule le_trans)
  next
    case False
    then have "length b - 1 = 0" by simp
    then show ?thesis by simp
  qed
  have plan: "planBatches C w xs = (if cur \<noteq> [] then bs @ [cur] else bs)"
    by (simp add: planBatches_def run)
  have 1: "\<forall>b\<in>set (planBatches C w xs).
      b \<noteq> [] \<and> (length b - 1) * w \<le> C \<and> (2 \<le> length b \<longrightarrow> length b * w \<le> C)"
  proof
    fix b assume "b \<in> set (planBatches C w xs)"
    then have "b \<in> set bs \<or> (b = cur \<and> cur \<noteq> [])"
      by (auto simp: plan split: if_splits)
    then have "b \<noteq> [] \<and> (2 \<le> length b \<longrightarrow> length b * w \<le> C)"
      using inv by blast
    then show "b \<noteq> [] \<and> (length b - 1) * w \<le> C \<and> (2 \<le> length b \<longrightarrow> length b * w \<le> C)"
      using weak [of b] by blast
  qed
  have 2: "C < length (planBatches C w xs ! i) * w + w" if "Suc i < length (planBatches C w xs)" for i
  proof -
    from that have "i < length bs" by (simp add: plan split: if_splits)
    then have "planBatches C w xs ! i = bs ! i" and "bs ! i \<in> set bs"
      by (simp_all add: plan nth_append)
    with inv show ?thesis by simp
  qed
  from 1 2 show ?thesis by blast
qed

text \<open>
  The scenario of the specification, with the constants of the module: 62 images at 500KB
  against 30720KB give a first batch of 61 images, which fits and to which one more image
  would not fit, and a second batch for image 62.
\<close>

theorem planBatches_bound_witness:
  "planBatches (MAX_BATCH_SIZE_MB * 1024) ESTIMATED_IMAGE_SIZE_KB [0..<62] ! 0
     \<in> set (planBatches (MAX_BATCH_SIZE_MB * 1024) ESTIMATED_IMAGE_SIZE_KB [0..<62])
   \<and> length (planBatches (MAX_BATCH_SIZE_MB * 1024) ESTIMATED_IMAGE_SIZE_KB [0..<62] ! 0) = 61
   \<and> (61 - 1) * ESTIMATED_IMAGE_SIZE_KB \<le> MAX_BATCH_SIZE_MB * 1024
   \<and> 61 * ESTIMATED_IMAGE_SIZE_KB \<le> MAX_BATCH_SIZE_MB * 1024
   \<and> Suc 0 < length (planBatches (MAX_BATCH_SIZE_MB * 1024) ESTIMATED_IMAGE_SIZE_KB [0..<62])
   \<and> MAX_BATCH_SIZE_MB * 1024 < 61 * ESTIMATED_IMAGE_SIZE_KB + ESTIMATED_IMAGE_SIZE_KB"
proof -
  let ?bs = "planBatches (MAX_BATCH_SIZE_MB * 1024) ESTIMATED_IMAGE_SIZE_KB [0..<62]"
  have plan: "?bs = [[0..<61], [61]]"
    by (simp add: planBatches_def MAX_BATCH_SIZE_MB_def ESTIMATED_IMAGE_SIZE_KB_def upt_conv_Cons)
  have mem: "?bs ! 0 \<in> set ?bs"
    unfolding plan by simp
  have two: "Suc 0 < length ?bs"
    unfolding plan by simp
  have len: "length (?bs ! 0) = 61"
    unfolding plan by simp
  have "(length (?bs ! 0) - 1) * ESTIMATED_IMAGE_SIZE_KB \<le> MAX_BATCH_SIZE_MB * 1024
     \<and> (2 \<le> length (?bs ! 0) \<longrightarrow> length (?bs ! 0) * ESTIMATED_IMAGE_SIZE_KB \<le> MAX_BATCH_SIZE_MB * 1024)
     \<and> MAX_BATCH_SIZE_MB * 1024 < length (?bs ! 0) * ESTIMATED_IMAGE_SIZE_KB + ESTIMATED_IMAGE_SIZE_KB"
    using planBatches_bound [of "MAX_BATCH_SIZE_MB * 1024" ESTIMATED_IMAGE_SIZE_KB "[0..<62]"] mem two
    by blast
  then show ?thesis
    using mem two unfolding len by simp
qed

subsection \<open>The sample inputs evaluated\<close>

text \<open>An image given by a data URL is resolved without any effect, and the sample replies
  parse to the values below.\<close>

lemma sample_batchContent:
  "batchContent (sampleEnv client) world0 [sampleImage] sampleDate
     = (fst (batchContent (sampleEnv client) world0 [sampleImage] sampleDate), world0)"
  by (simp add: model_defs sample_defs)

lemma sample_combinedContent:
  "combinedContent (sampleEnv client) world0 [sampleImage] sampleDate
     = (fst (combinedContent (sampleEnv client) world0 [sampleImage] sampleDate), world0)"
  by (simp add: model_defs sample_defs)

lemma sample_parse:
  "sampleParse (stripCodeFences (messageContent \<lparr>content = Some [Some oneJson]\<rparr>))
     = Some (JObj [(''selections'', JArr [pick 0])])"
  "sampleParse (stripCodeFences (messageContent \<lparr>content = Some [Some sixJson]\<rparr>))
     = Some (JObj [(''selections'', JArr (replicate 6 (pick 0)))])"
  "sampleParse (stripCodeFences (messageContent \<lparr>content = Some [Some captionJson]\<rparr>))
     = Some (JObj [(''caption'', JStr ''A great day!'')])"
  "sampleParse (stripCodeFences (messageContent \<lparr>content = Some [Some garbled]\<rparr>)) = None"
  by (simp_all add: messageContent_def stripCodeFences_def trim_def isSpace_def
        startsWith_def sample_defs)



subsection \<open>The call to the client inside the two entry points\<close>

text \<open>
  Every run of the retry loop makes \<open>k\<close> attempts, \<open>k\<close> one of 1, 2, 3, all but the last of
  them rejected with status 529, and its result is decided by the last attempt.
\<close>

lemma createWithRetry_attempts:
  assumes "createWithRetry client req w = (res, w')"
  shows "\<exists>k\<in>{1, 2, 3}.
      events w' = events w @ retryTrace req k
    \<and> (\<forall>j<k - 1. \<exists>err. client (callCount w + j) req = Rejected err \<and> status err = Some 529)
    \<and> (case client (callCount w + (k - 1)) req of
          Rejected err \<Rightarrow> res = Inl err \<and> (status err = Some 529 \<longrightarrow> k = 3)
        | Resolved (Some r) \<Rightarrow> res = Inr r
        | Resolved None \<Rightarrow>
            (if k = 1 then res = Inl (Error ''Failed to get response from Claude'' None)
             else \<exists>err. client (callCount w + (k - 2)) req = Rejected err \<and> res = Inl err))"
proof -
  let ?n = "callCount w"
  let ?P = "\<lambda>k. events w' = events w @ retryTrace req k
    \<and> (\<forall>j<k - 1. \<exists>err. client (?n + j) req = Rejected err \<and> status err = Some 529)
    \<and> (case client (?n + (k - 1)) req of
          Rejected err \<Rightarrow> res = Inl err \<and> (status err = Some 529 \<longrightarrow> k = 3)
        | Resolved (Some r) \<Rightarrow> res = Inr r
        | Resolved None \<Rightarrow>
            (if k = 1 then res = Inl (Error ''Failed to get response from Claude'' None)
             else \<exists>err. client (?n + (k - 2)) req = Rejected err \<and> res = Inl err))"
  note run = assms
  have less2: "(\<forall>j<Suc (Suc 0). Q j) = (Q 0 \<and> Q (Suc 0))" for Q
    by (auto simp: less_Suc_eq)
  consider (one) "\<not> (\<exists>err. client ?n req = Rejected err \<and> status err = Some 529)"
    | (two) err0 where "client ?n req = Rejected err0" "status err0 = Some 529"
        "\<not> (\<exists>err. client (?n + 1) req = Rejected err \<and> status err = Some 529)"
    | (three) err0 err1 where "client ?n req = Rejected err0" "status err0 = Some 529"
        "client (?n + 1) req = Rejected err1" "status err1 = Some 529"
    by blast
  then show ?thesis
  proof cases
    case one
    with run have "?P 1"
      by (auto simp: createWithRetry_def retryLoop_0 retryTrace_simps
          split: outcome.splits option.splits)
    then show ?thesis by blast
  next
    case two
    with run have "?P 2"
      by (auto simp: createWithRetry_def retryLoop_0 retryLoop_1 retryTrace_simps numeral_2_eq_2
          split: outcome.splits option.splits)
    then show ?thesis by blast
  next
    case three
    with run have "?P 3"
      by (auto simp: createWithRetry_def retryLoop_0 retryLoop_1 retryLoop_2 retryTrace_simps less2
          numeral_3_eq_3 split: outcome.splits option.splits)
    then show ?thesis by blast
  qed
qed

text \<open>Conversely, the answers of the client to the attempts decide the run.\<close>

lemma createWithRetry_run:
  assumes "k \<in> {1, 2, 3}"
    and "\<forall>j<k - 1. \<exists>err. client (callCount w + j) req = Rejected err \<and> status err = Some 529"
  shows "client (callCount w + (k - 1)) req = Rejected err \<Longrightarrow> status err = Some 529 \<longrightarrow> k = 3
      \<Longrightarrow> createWithRetry client req w = (Inl err, w\<lparr>events := events w @ retryTrace req k\<rparr>)"
    and "client (callCount w + (k - 1)) req = Resolved (Some r)
      \<Longrightarrow> createWithRetry client req w = (Inr r, w\<lparr>events := events w @ retryTrace req k\<rparr>)"
proof -
  have less2: "(\<forall>j<Suc (Suc 0). Q j) = (Q 0 \<and> Q (Suc 0))" for Q
    by (auto simp: less_Suc_eq)
  from assms(1) consider "k = Suc 0" | "k = Suc (Suc 0)" | "k = Suc (Suc (Suc 0))"
    by auto
  then have "(client (callCount w + (k - 1)) req = Rejected err \<longrightarrow> (status err = Some 529 \<longrightarrow> k = 3)
      \<longrightarrow> createWithRetry client req w = (Inl err, w\<lparr>events := events w @ retryTrace req k\<rparr>))
    \<and> (client (callCount w + (k - 1)) req = Resolved (Some r)
      \<longrightarrow> createWithRetry client req w = (Inr r, w\<lparr>events := events w @ retryTrace req k\<rparr>))"
  proof cases
    case 1
    then show ?thesis
      by (auto simp: createWithRetry_def retryLoop_0 retryTrace_simps emit_def)
  next
    case 2
    with assms(2) show ?thesis
      by (auto simp: createWithRetry_def retryLoop_0 retryLoop_1 retryTrace_simps emit_def callCount_def)
  next
    case 3
    with assms(2) show ?thesis
      by (auto simp: createWithRetry_def retryLoop_0 retryLoop_1 retryLoop_2 retryTrace_simps
          emit_def callCount_def less2)
  qed
  then show "client (callCount w + (k - 1)) req = Rejected err \<Longrightarrow> status err = Some 529 \<longrightarrow> k = 3
      \<Longrightarrow> createWithRetry client req w = (Inl err, w\<lparr>events := events w @ retryTrace req k\<rparr>)"
    and "client (callCount w + (k - 1)) req = Resolved (Some r)
      \<Longrightarrow> createWithRetry client req w = (Inr r, w\<lparr>events := events w @ retryTrace req k\<rparr>)"
    by blast+
qed

lemma createWithRetry_first_call:
  "\<exists>more. events (snd (createWithRetry client req w)) = events w @ Call req # more"
  by (auto simp: createWithRetry_def retryLoop_0 retryLoop_1 retryLoop_2
      split: outcome.splits option.splits)

text \<open>Reading the reply sends nothing: it leaves the trace as the call left it.\<close>

lemma selectionPosts_events [simp]:
  "events (snd (selectionPosts e batch sels w)) = events w"
proof (induction sels arbitrary: w)
  case Nil
  then show ?case by simp
next
  case (Cons sel sels)
  show ?case
    using Cons.IH [of w] Cons.IH [of "w\<lparr>clockReads := clockReads w + 1\<rparr>"]
    by (simp add: Let_def split_beta split: sum.splits lookup.splits)
qed

lemma selectionPosts_callCount [simp]:
  "callCount (snd (selectionPosts e batch sels w)) = callCount w"
  by (simp add: callCount_def)

lemma processBatch_events:
  "events (snd (processBatch e w batch date i)) =
     events (snd (sendRequest e \<lparr>system = batchSystem, userContent = fst (batchContent e w batch date)\<rparr>
                    (snd (batchContent e w batch date))))"
proof -
  obtain res w2 where s: "sendRequest e
      \<lparr>system = batchSystem, userContent = fst (batchContent e w batch date)\<rparr>
      (snd (batchContent e w batch date)) = (res, w2)"
    by (cases "sendRequest e \<lparr>system = batchSystem, userContent = fst (batchContent e w batch date)\<rparr>
      (snd (batchContent e w batch date))") auto
  have "events (snd (selectionPosts e batch sels w2)) = events w2" for sels
    by simp
  then show ?thesis
    using s
    by (simp add: processBatch_def split_beta
        split: sum.splits option.splits json.splits)
qed

lemma generateCombinedPost_events:
  assumes "anthropic e \<noteq> None" and "imgs \<noteq> []" and "length imgs \<le> 5"
  shows "events (snd (generateCombinedPost e w (Some imgs) date)) =
     events (snd (sendRequest e
                    \<lparr>system = combinedSystem, userContent = fst (combinedContent e w imgs date)\<rparr>
                    (snd (combinedContent e w imgs date))))"
  using assms
  by (auto simp: generateCombinedPost_def Let_def split_beta split: sum.splits option.splits)

text \<open>
  An error thrown by the call is thrown by the entry point, with the world of that
  moment; once the call has returned a reply, the only error an entry point throws is the
  one that replaces whatever is thrown while the reply is read.
\<close>

lemma processBatch_throws:
  assumes "batchContent e w batch date = (blocks, w1)"
    and "sendRequest e \<lparr>system = batchSystem, userContent = blocks\<rparr> w1 = (Inl err, w2)"
  shows "processBatch e w batch date i = (Inl err, w2)"
  using assms by (simp add: processBatch_def)

lemma processBatch_reads:
  assumes "batchContent e w batch date = (blocks, w1)"
    and "sendRequest e \<lparr>system = batchSystem, userContent = blocks\<rparr> w1 = (Inr r, w2)"
    and "fst (processBatch e w batch date i) = Inl err"
  shows "err = Error ''Claude response parsing failed'' None"
  using assms
  by (auto simp: processBatch_def split_beta
      split: sum.splits option.splits json.splits if_splits)

lemma generateCombinedPost_throws:
  assumes "anthropic e \<noteq> None" and "imgs \<noteq> []" and "length imgs \<le> 5"
    and "combinedContent e w imgs date = (blocks, w1)"
    and "sendRequest e \<lparr>system = combinedSystem, userContent = blocks\<rparr> w1 = (Inl err, w2)"
  shows "generateCombinedPost e w (Some imgs) date = (Inl err, w2)"
  using assms by (auto simp: generateCombinedPost_def)

lemma generateCombinedPost_reads:
  assumes "anthropic e \<noteq> None" and "imgs \<noteq> []" and "length imgs \<le> 5"
    and "combinedContent e w imgs date = (blocks, w1)"
    and "sendRequest e \<lparr>system = combinedSystem, userContent = blocks\<rparr> w1 = (Inr r, w2)"
    and "fst (generateCombinedPost e w (Some imgs) date) = Inl err"
  shows "err = Error ''Failed to generate caption'' None"
  using assms
  by (auto simp: generateCombinedPost_def Let_def split: sum.splits option.splits if_splits)

text \<open>Building the content sends no request.\<close>

lemma imageUrlToBase64_callCount [simp]:
  "callCount (snd (imageUrlToBase64 e w url)) = callCount w"
  by (simp add: imageUrlToBase64_def fetchImageAsBase64_def Let_def
      split: option.splits fetch_outcome.splits sum.splits)

lemma batchImageBlocks_callCount [simp]:
  "callCount (snd (batchImageBlocks e i imgs blocks w)) = callCount w"
proof (induction imgs arbitrary: i blocks w)
  case Nil
  then show ?case by simp
next
  case (Cons img imgs)
  obtain res w1 where r: "imageUrlToBase64 e w (imageUrl img) = (res, w1)"
    by (cases "imageUrlToBase64 e w (imageUrl img)") auto
  then have "callCount w1 = callCount w"
    using imageUrlToBase64_callCount [of e w "imageUrl img"] by simp
  with r Cons.IH show ?case
    by (cases res) (simp_all add: Let_def)
qed

lemma batchContent_callCount [simp]:
  "callCount (snd (batchContent e w batch date)) = callCount w"
  by (simp add: batchContent_def split_beta)


lemma combinedImageBlocks_callCount [simp]:
  "callCount (snd (combinedImageBlocks e i imgs blocks w)) = callCount w"
proof (induction imgs arbitrary: i blocks w)
  case Nil
  then show ?case by simp
next
  case (Cons img imgs)
  obtain res w1 where r: "imageUrlToBase64 e w (imageUrl img) = (res, w1)"
    by (cases "imageUrlToBase64 e w (imageUrl img)") auto
  then have "callCount w1 = callCount w"
    using imageUrlToBase64_callCount [of e w "imageUrl img"] by simp
  with r Cons.IH show ?case
    by (cases res) (simp_all add: Let_def)
qed

lemma combinedContent_callCount [simp]:
  "callCount (snd (combinedContent e w imgs date)) = callCount w"
  by (simp add: combinedContent_def split_beta)

text \<open>
  The runs of \<open>processBatch\<close>, by the answers of the client to the \<open>k\<close> attempts and by what
  \<open>JSON.parse\<close> makes of the reply.
\<close>

lemma processBatch_rejected:
  assumes "anthropic e = Some client"
    and "batchContent e w batch date = (blocks, w1)"
    and "k \<in> {1, 2, 3}"
    and "\<forall>j<k - 1. \<exists>err. client (callCount w1 + j) \<lparr>system = batchSystem, userContent = blocks\<rparr>
                          = Rejected err \<and> status err = Some 529"
    and "client (callCount w1 + (k - 1)) \<lparr>system = batchSystem, userContent = blocks\<rparr> = Rejected err"
    and "status err = Some 529 \<longrightarrow> k = 3"
  shows "processBatch e w batch date i =
     (Inl err, w1\<lparr>events := events w1 @ retryTrace \<lparr>system = batchSystem, userContent = blocks\<rparr> k\<rparr>)"
  using assms(1,2) createWithRetry_run(1) [where client = client and w = w1 and k = k, OF assms(3,4,5,6)]
  by (simp add: processBatch_def sendRequest_def)


lemma processBatch_no_selections:
  assumes "anthropic e = Some client"
    and "batchContent e w batch date = (blocks, w1)"
    and "k \<in> {1, 2, 3}"
    and "\<forall>j<k - 1. \<exists>err. client (callCount w1 + j) \<lparr>system = batchSystem, userContent = blocks\<rparr>
                          = Rejected err \<and> status err = Some 529"
    and "client (callCount w1 + (k - 1)) \<lparr>system = batchSystem, userContent = blocks\<rparr>
           = Resolved (Some r)"
    and "JSON_parse e (stripCodeFences (messageContent r)) = Some parsed"
    and "parsed \<noteq> JNull"
    and "selectionsOf parsed = []"
  shows "processBatch e w batch date i =
     (Inr [], w1\<lparr>events := events w1 @ retryTrace \<lparr>system = batchSystem, userContent = blocks\<rparr> k\<rparr>)"
  using assms(1,2,6,7,8) createWithRetry_run(2) [where client = client and w = w1 and k = k, OF assms(3,4,5)]
  by (auto simp: processBatch_def sendRequest_def property_def selectionsOf_def
      split: option.splits json.splits)

lemma processBatch_selections:
  assumes "anthropic e = Some client"
    and "batchContent e w batch date = (blocks, w1)"
    and "k \<in> {1, 2, 3}"
    and "\<forall>j<k - 1. \<exists>err. client (callCount w1 + j) \<lparr>system = batchSystem, userContent = blocks\<rparr>
                          = Rejected err \<and> status err = Some 529"
    and "client (callCount w1 + (k - 1)) \<lparr>system = batchSystem, userContent = blocks\<rparr>
           = Resolved (Some r)"
    and "JSON_parse e (stripCodeFences (messageContent r)) = Some parsed"
    and "parsed \<noteq> JNull"
    and "selectionsOf parsed \<noteq> []"
  shows "processBatch e w batch date i =
     (case selectionPosts e batch (selectionsOf parsed)
             (w1\<lparr>events := events w1 @ retryTrace \<lparr>system = batchSystem, userContent = blocks\<rparr> k\<rparr>) of
        (Inl err, w3) \<Rightarrow> (Inl (Error ''Claude response parsing failed'' None), w3)
      | (Inr captions, w3) \<Rightarrow> (Inr (filterBoolean captions), w3))"
  using assms(1,2,6,7,8) createWithRetry_run(2) [where client = client and w = w1 and k = k, OF assms(3,4,5)]
  by (auto simp: processBatch_def sendRequest_def property_def selectionsOf_def
      split: option.splits json.splits)

text \<open>The runs of \<open>generateCombinedPost\<close>, in the same way.\<close>

lemma generateCombinedPost_rejected:
  assumes "anthropic e = Some client"
    and "imgs \<noteq> []" and "length imgs \<le> 5"
    and "combinedContent e w imgs date = (blocks, w1)"
    and "k \<in> {1, 2, 3}"
    and "\<forall>j<k - 1. \<exists>err. client (callCount w1 + j) \<lparr>system = combinedSystem, userContent = blocks\<rparr>
                          = Rejected err \<and> status err = Some 529"
    and "client (callCount w1 + (k - 1)) \<lparr>system = combinedSystem, userContent = blocks\<rparr> = Rejected err"
    and "status err = Some 529 \<longrightarrow> k = 3"
  shows "generateCombinedPost e w (Some imgs) date =
     (Inl err, w1\<lparr>events := events w1 @ retryTrace \<lparr>system = combinedSystem, userContent = blocks\<rparr> k\<rparr>)"
  using assms(1,2,3,4) createWithRetry_run(1) [where client = client and w = w1 and k = k, OF assms(5,6,7,8)]
  by (simp add: generateCombinedPost_def sendRequest_def)

lemma generateCombinedPost_captioned:
  assumes "anthropic e = Some client"
    and "imgs \<noteq> []" and "length imgs \<le> 5"
    and "combinedContent e w imgs date = (blocks, w1)"
    and "k \<in> {1, 2, 3}"
    and "\<forall>j<k - 1. \<exists>err. client (callCount w1 + j) \<lparr>system = combinedSystem, userContent = blocks\<rparr>
                          = Rejected err \<and> status err = Some 529"
    and "client (callCount w1 + (k - 1)) \<lparr>system = combinedSystem, userContent = blocks\<rparr>
           = Resolved (Some r)"
    and "JSON_parse e (stripCodeFences (messageContent r)) = Some parsed"
    and "own ''caption'' parsed = Some c"
    and "truthy c"
  shows "generateCombinedPost e w (Some imgs) date =
     (Inr \<lparr>caption_text = Some c,
           email_id = Some (emailId (imgs ! 0)),
           source_image_url = Some (imageUrl (imgs ! 0)),
           source_image_urls = (if filter (\<lambda>u. u \<noteq> []) (map imageUrl imgs) = [] then None
                                else Some (filter (\<lambda>u. u \<noteq> []) (map imageUrl imgs))),
           created_at = Date_now e (clockReads w1)\<rparr>,
      w1\<lparr>events := events w1 @ retryTrace \<lparr>system = combinedSystem, userContent = blocks\<rparr> k,
         clockReads := clockReads w1 + 1\<rparr>)"
proof -
  from assms(9) have "parsed \<noteq> JNull" by (auto simp: own_def)
  then show ?thesis
    using assms(1,2,3,4,8,9,10) createWithRetry_run(2) [where client = client and w = w1 and k = k, OF assms(5,6,7)]
    by (simp add: generateCombinedPost_def sendRequest_def property_def Let_def)
qed

subsection \<open>The retry policy\<close>

text \<open>
  C5. Let \<open>processBatch\<close> have built the content \<open>blocks\<close> for its batch, and
  \<open>generateCombinedPost\<close> the content \<open>cblocks\<close> for its images. Each of the two functions
  then makes \<open>k\<close> attempts at its request, with \<open>k\<close> one of 1, 2, 3, and from the content on
  its trace is exactly: a call, then before attempt \<open>j + 1\<close> a sleep of \<open>j * 2000\<close>
  milliseconds (2000, then 4000). Every attempt but the last was rejected with status
  529, so nothing else is ever retried. When the last attempt is rejected, the function
  throws that very error, and if its status is 529 the three attempts are used up. When
  the last attempt resolves to a falsy value, the function throws the last error, or a
  fixed error when there was none. When it resolves to a reply, no further attempt is
  made, and the only error the function can still throw is the one for a reply it cannot
  read.
\<close>

theorem retry_policy:
  assumes "anthropic e = Some client"
    and "batchContent e w batch date = (blocks, w1)"
    and "imgs \<noteq> []" and "length imgs \<le> 5"
    and "combinedContent e w imgs date = (cblocks, cw1)"
  shows "(\<exists>k\<in>{1, 2, 3}.
        events (snd (processBatch e w batch date i))
          = events w1 @ retryTrace \<lparr>system = batchSystem, userContent = blocks\<rparr> k
      \<and> (\<forall>j<k - 1. \<exists>err. client (callCount w1 + j) \<lparr>system = batchSystem, userContent = blocks\<rparr>
                              = Rejected err \<and> status err = Some 529)
      \<and> (case client (callCount w1 + (k - 1)) \<lparr>system = batchSystem, userContent = blocks\<rparr> of
            Rejected err \<Rightarrow>
              fst (processBatch e w batch date i) = Inl err \<and> (status err = Some 529 \<longrightarrow> k = 3)
          | Resolved None \<Rightarrow>
              (if k = 1
               then fst (processBatch e w batch date i)
                      = Inl (Error ''Failed to get response from Claude'' None)
               else \<exists>err. client (callCount w1 + (k - 2)) \<lparr>system = batchSystem, userContent = blocks\<rparr>
                             = Rejected err
                         \<and> fst (processBatch e w batch date i) = Inl err)
          | Resolved (Some r) \<Rightarrow>
              (\<forall>err. fst (processBatch e w batch date i) = Inl err
                 \<longrightarrow> err = Error ''Claude response parsing failed'' None)))
   \<and> (\<exists>k\<in>{1, 2, 3}.
        events (snd (generateCombinedPost e w (Some imgs) date))
          = events cw1 @ retryTrace \<lparr>system = combinedSystem, userContent = cblocks\<rparr> k
      \<and> (\<forall>j<k - 1. \<exists>err. client (callCount cw1 + j) \<lparr>system = combinedSystem, userContent = cblocks\<rparr>
                              = Rejected err \<and> status err = Some 529)
      \<and> (case client (callCount cw1 + (k - 1)) \<lparr>system = combinedSystem, userContent = cblocks\<rparr> of
            Rejected err \<Rightarrow>
              fst (generateCombinedPost e w (Some imgs) date) = Inl err
              \<and> (status err = Some 529 \<longrightarrow> k = 3)
          | Resolved None \<Rightarrow>
              (if k = 1
               then fst (generateCombinedPost e w (Some imgs) date)
                      = Inl (Error ''Failed to get response from Claude'' None)
               else \<exists>err. client (callCount cw1 + (k - 2))
                               \<lparr>system = combinedSystem, userContent = cblocks\<rparr> = Rejected err
                         \<and> fst (generateCombinedPost e w (Some imgs) date) = Inl err)
          | Resolved (Some r) \<Rightarrow>
              (\<forall>err. fst (generateCombinedPost e w (Some imgs) date) = Inl err
                 \<longrightarrow> err = Error ''Failed to generate caption'' None)))"
proof -
  let ?req = "\<lparr>system = batchSystem, userContent = blocks\<rparr>"
  let ?creq = "\<lparr>system = combinedSystem, userContent = cblocks\<rparr>"
  let ?pb = "processBatch e w batch date i"
  let ?cp = "generateCombinedPost e w (Some imgs) date"
  have cfg: "anthropic e \<noteq> None" using assms(1) by simp
  obtain res w2 where send: "sendRequest e ?req w1 = (res, w2)"
    by (cases "sendRequest e ?req w1") auto
  then have run: "createWithRetry client ?req w1 = (res, w2)"
    using assms(1) by (simp add: sendRequest_def)
  have ev: "events (snd ?pb) = events w2"
    using processBatch_events [of e w batch date i] assms(2) send by simp
  have thrown: "fst ?pb = Inl err" if "res = Inl err" for err
    using processBatch_throws [OF assms(2), of err w2 i] send that by simp
  have read: "\<forall>err. fst ?pb = Inl err \<longrightarrow> err = Error ''Claude response parsing failed'' None"
    if "res = Inr r" for r
    using processBatch_reads [OF assms(2), of r w2 i] send that by blast
  from createWithRetry_attempts [OF run] obtain k where k: "k \<in> {1, 2, 3}"
    and trace: "events w2 = events w1 @ retryTrace ?req k"
    and before: "\<forall>j<k - 1. \<exists>err. client (callCount w1 + j) ?req = Rejected err \<and> status err = Some 529"
    and last: "case client (callCount w1 + (k - 1)) ?req of
          Rejected err \<Rightarrow> res = Inl err \<and> (status err = Some 529 \<longrightarrow> k = 3)
        | Resolved (Some r) \<Rightarrow> res = Inr r
        | Resolved None \<Rightarrow>
            (if k = 1 then res = Inl (Error ''Failed to get response from Claude'' None)
             else \<exists>err. client (callCount w1 + (k - 2)) ?req = Rejected err \<and> res = Inl err)"
    by blast
  have last': "case client (callCount w1 + (k - 1)) ?req of
            Rejected err \<Rightarrow> fst ?pb = Inl err \<and> (status err = Some 529 \<longrightarrow> k = 3)
          | Resolved None \<Rightarrow>
              (if k = 1 then fst ?pb = Inl (Error ''Failed to get response from Claude'' None)
               else \<exists>err. client (callCount w1 + (k - 2)) ?req = Rejected err \<and> fst ?pb = Inl err)
          | Resolved (Some r) \<Rightarrow>
              (\<forall>err. fst ?pb = Inl err \<longrightarrow> err = Error ''Claude response parsing failed'' None)"
    using last thrown read
    by (auto split: outcome.splits option.splits if_splits)
  have t: "events (snd ?pb) = events w1 @ retryTrace ?req k"
    using ev trace by simp
  have batch: "\<exists>k\<in>{1, 2, 3}.
        events (snd ?pb) = events w1 @ retryTrace ?req k
      \<and> (\<forall>j<k - 1. \<exists>err. client (callCount w1 + j) ?req = Rejected err \<and> status err = Some 529)
      \<and> (case client (callCount w1 + (k - 1)) ?req of
            Rejected err \<Rightarrow> fst ?pb = Inl err \<and> (status err = Some 529 \<longrightarrow> k = 3)
          | Resolved None \<Rightarrow>
              (if k = 1 then fst ?pb = Inl (Error ''Failed to get response from Claude'' None)
               else \<exists>err. client (callCount w1 + (k - 2)) ?req = Rejected err \<and> fst ?pb = Inl err)
          | Resolved (Some r) \<Rightarrow>
              (\<forall>err. fst ?pb = Inl err \<longrightarrow> err = Error ''Claude response parsing failed'' None))"
    by (intro bexI [where x = k] conjI t before last' k)
  obtain cres cw2 where csend: "sendRequest e ?creq cw1 = (cres, cw2)"
    by (cases "sendRequest e ?creq cw1") auto
  then have crun: "createWithRetry client ?creq cw1 = (cres, cw2)"
    using assms(1) by (simp add: sendRequest_def)
  have cev: "events (snd ?cp) = events cw2"
    using generateCombinedPost_events [OF cfg assms(3,4), of w date] assms(5) csend by simp
  have cthrown: "fst ?cp = Inl err" if "cres = Inl err" for err
    using generateCombinedPost_throws [OF cfg assms(3,4,5), of err cw2] csend that by simp
  have cread: "\<forall>err. fst ?cp = Inl err \<longrightarrow> err = Error ''Failed to generate caption'' None"
    if "cres = Inr r" for r
    using generateCombinedPost_reads [OF cfg assms(3,4,5), of r cw2] csend that by blast
  from createWithRetry_attempts [OF crun] obtain ck where ck: "ck \<in> {1, 2, 3}"
    and ctrace: "events cw2 = events cw1 @ retryTrace ?creq ck"
    and cbefore: "\<forall>j<ck - 1. \<exists>err. client (callCount cw1 + j) ?creq = Rejected err \<and> status err = Some 529"
    and clast: "case client (callCount cw1 + (ck - 1)) ?creq of
          Rejected err \<Rightarrow> cres = Inl err \<and> (status err = Some 529 \<longrightarrow> ck = 3)
        | Resolved (Some r) \<Rightarrow> cres = Inr r
        | Resolved None \<Rightarrow>
            (if ck = 1 then cres = Inl (Error ''Failed to get response from Claude'' None)
             else \<exists>err. client (callCount cw1 + (ck - 2)) ?creq = Rejected err \<and> cres = Inl err)"
    by blast
  have clast': "case client (callCount cw1 + (ck - 1)) ?creq of
            Rejected err \<Rightarrow> fst ?cp = Inl err \<and> (status err = Some 529 \<longrightarrow> ck = 3)
          | Resolved None \<Rightarrow>
              (if ck = 1 then fst ?cp = Inl (Error ''Failed to get response from Claude'' None)
               else \<exists>err. client (callCount cw1 + (ck - 2)) ?creq = Rejected err \<and> fst ?cp = Inl err)
          | Resolved (Some r) \<Rightarrow>
              (\<forall>err. fst ?cp = Inl err \<longrightarrow> err = Error ''Failed to generate caption'' None)"
    using clast cthrown cread
    by (auto split: outcome.splits option.splits if_splits)
  have ct: "events (snd ?cp) = events cw1 @ retryTrace ?creq ck"
    using cev ctrace by simp
  have combined: "\<exists>k\<in>{1, 2, 3}.
        events (snd ?cp) = events cw1 @ retryTrace ?creq k
      \<and> (\<forall>j<k - 1. \<exists>err. client (callCount cw1 + j) ?creq = Rejected err \<and> status err = Some 529)
      \<and> (case client (callCount cw1 + (k - 1)) ?creq of
            Rejected err \<Rightarrow> fst ?cp = Inl err \<and> (status err = Some 529 \<longrightarrow> k = 3)
          | Resolved None \<Rightarrow>
              (if k = 1 then fst ?cp = Inl (Error ''Failed to get response from Claude'' None)
               else \<exists>err. client (callCount cw1 + (k - 2)) ?creq = Rejected err \<and> fst ?cp = Inl err)
          | Resolved (Some r) \<Rightarrow>
              (\<forall>err. fst ?cp = Inl err \<longrightarrow> err = Error ''Failed to generate caption'' None))"
    by (intro bexI [where x = ck] conjI ct cbefore clast' ck)
  from batch combined show ?thesis by (rule conjI)
qed

text \<open>
  A client that is always overloaded: either function calls three times, sleeping 2000
  and 4000 milliseconds in between, and throws the error of the last attempt. A client
  that is overloaded twice and then answers: three calls with the same sleeps, and the
  post is returned. A client that refuses with status 400: one call, and that error is
  thrown.
\<close>

theorem retry_policy_witness:
  "anthropic (sampleEnv (failing overloadedError)) = Some (failing overloadedError)
   \<and> anthropic (sampleEnv (flaky captionJson)) = Some (flaky captionJson)
   \<and> [sampleImage] \<noteq> [] \<and> length [sampleImage] \<le> 5
   \<and> processBatch (sampleEnv (failing overloadedError)) world0 [sampleImage] sampleDate 0
       = (Inl overloadedError,
          \<lparr>events = retryTrace \<lparr>system = batchSystem,
               userContent = fst (batchContent (sampleEnv (failing overloadedError)) world0
                                    [sampleImage] sampleDate)\<rparr> 3,
            clockReads = 0\<rparr>)
   \<and> generateCombinedPost (sampleEnv (failing overloadedError)) world0 (Some [sampleImage]) sampleDate
       = (Inl overloadedError,
          \<lparr>events = retryTrace \<lparr>system = combinedSystem,
               userContent = fst (combinedContent (sampleEnv (failing overloadedError)) world0
                                    [sampleImage] sampleDate)\<rparr> 3,
            clockReads = 0\<rparr>)
   \<and> generateCombinedPost (sampleEnv (flaky captionJson)) world0 (Some [sampleImage]) sampleDate
       = (Inr \<lparr>caption_text = Some (JStr ''A great day!''), email_id = Some ''email-1'',
               source_image_url = Some sampleUrl, source_image_urls = Some [sampleUrl],
               created_at = sampleDate\<rparr>,
          \<lparr>events = retryTrace \<lparr>system = combinedSystem,
               userContent = fst (combinedContent (sampleEnv (flaky captionJson)) world0
                                    [sampleImage] sampleDate)\<rparr> 3,
            clockReads = 1\<rparr>)
   \<and> anthropic (sampleEnv (failing badRequest)) = Some (failing badRequest)
   \<and> status badRequest = Some 400
   \<and> processBatch (sampleEnv (failing badRequest)) world0 [sampleImage] sampleDate 0
       = (Inl badRequest,
          \<lparr>events = [Call \<lparr>system = batchSystem,
               userContent = fst (batchContent (sampleEnv (failing badRequest)) world0
                                    [sampleImage] sampleDate)\<rparr>],
            clockReads = 0\<rparr>)
   \<and> retryTrace \<lparr>system = combinedSystem,
         userContent = fst (combinedContent (sampleEnv (flaky captionJson)) world0
                              [sampleImage] sampleDate)\<rparr> 3
       = [Call \<lparr>system = combinedSystem,
                userContent = fst (combinedContent (sampleEnv (flaky captionJson)) world0
                                     [sampleImage] sampleDate)\<rparr>,
          Sleep 2000,
          Call \<lparr>system = combinedSystem,
                userContent = fst (combinedContent (sampleEnv (flaky captionJson)) world0
                                     [sampleImage] sampleDate)\<rparr>,
          Sleep 4000,
          Call \<lparr>system = combinedSystem,
                userContent = fst (combinedContent (sampleEnv (flaky captionJson)) world0
                                     [sampleImage] sampleDate)\<rparr>]"
proof -
  let ?over = "sampleEnv (failing overloadedError)"
  let ?flaky = "sampleEnv (flaky captionJson)"
  let ?b = "[sampleImage]"
  have cfg1: "anthropic ?over = Some (failing overloadedError)" by simp
  have cfg2: "anthropic ?flaky = Some (flaky captionJson)" by simp
  have ne: "?b \<noteq> []" and le: "length ?b \<le> 5" by simp_all
  have three: "(3::nat) \<in> {1, 2, 3}" by simp
  have less2: "(\<forall>j<Suc (Suc 0). Q j) = (Q 0 \<and> Q (Suc 0))" for Q
    by (auto simp: less_Suc_eq)
  have trace: "retryTrace req 3 = [Call req, Sleep 2000, Call req, Sleep 4000, Call req]" for req
    by (simp add: retryTrace_simps numeral_3_eq_3)
  have sel: "processBatch ?over world0 ?b sampleDate 0
       = (Inl overloadedError,
          world0\<lparr>events := events world0 @ retryTrace \<lparr>system = batchSystem,
               userContent = fst (batchContent ?over world0 ?b sampleDate)\<rparr> 3\<rparr>)"
    by (rule processBatch_rejected [OF cfg1 sample_batchContent three])
       (simp_all add: failing_def overloadedError_def)
  have comb: "generateCombinedPost ?over world0 (Some ?b) sampleDate
       = (Inl overloadedError,
          world0\<lparr>events := events world0 @ retryTrace \<lparr>system = combinedSystem,
               userContent = fst (combinedContent ?over world0 ?b sampleDate)\<rparr> 3\<rparr>)"
    by (rule generateCombinedPost_rejected [OF cfg1 ne le sample_combinedContent three])
       (simp_all add: failing_def overloadedError_def)
  have post: "generateCombinedPost ?flaky world0 (Some ?b) sampleDate
       = (Inr \<lparr>caption_text = Some (JStr ''A great day!''),
               email_id = Some (emailId (?b ! 0)),
               source_image_url = Some (imageUrl (?b ! 0)),
               source_image_urls = (if filter (\<lambda>u. u \<noteq> []) (map imageUrl ?b) = [] then None
                                    else Some (filter (\<lambda>u. u \<noteq> []) (map imageUrl ?b))),
               created_at = Date_now ?flaky (clockReads world0)\<rparr>,
          world0\<lparr>events := events world0 @ retryTrace \<lparr>system = combinedSystem,
               userContent = fst (combinedContent ?flaky world0 ?b sampleDate)\<rparr> 3,
            clockReads := clockReads world0 + 1\<rparr>)"
    by (rule generateCombinedPost_captioned [OF cfg2 ne le sample_combinedContent three,
          where r = "\<lparr>content = Some [Some captionJson]\<rparr>"
            and parsed = "JObj [(''caption'', JStr ''A great day!'')]"])
       (simp_all add: flaky_def reply_def overloadedError_def sample_parse less2 numeral_3_eq_3
          own_def truthy_def)
  let ?bad = "sampleEnv (failing badRequest)"
  have cfg3: "anthropic ?bad = Some (failing badRequest)" by simp
  have one: "(1::nat) \<in> {1, 2, 3}" by simp
  have code: "status badRequest = Some 400" by (simp add: badRequest_def)
  have refused: "processBatch ?bad world0 ?b sampleDate 0
       = (Inl badRequest,
          world0\<lparr>events := events world0 @ retryTrace \<lparr>system = batchSystem,
               userContent = fst (batchContent ?bad world0 ?b sampleDate)\<rparr> 1\<rparr>)"
    by (rule processBatch_rejected [OF cfg3 sample_batchContent one])
       (simp_all add: failing_def badRequest_def)
  have refused': "processBatch ?bad world0 ?b sampleDate 0
       = (Inl badRequest,
          \<lparr>events = [Call \<lparr>system = batchSystem,
               userContent = fst (batchContent ?bad world0 ?b sampleDate)\<rparr>],
            clockReads = 0\<rparr>)"
    unfolding refused by (simp add: world0_def retryTrace_simps)
  note inst3 = retry_policy [OF cfg3 sample_batchContent ne le sample_combinedContent, of 0]
  note inst1 = retry_policy [OF cfg1 sample_batchContent ne le sample_combinedContent, of 0]
  note inst2 = retry_policy [OF cfg2 sample_batchContent ne le sample_combinedContent, of 0]
  from inst1 inst2 inst3 cfg1 cfg2 cfg3 code refused' sel comb post
    trace [of "\<lparr>system = combinedSystem,
                 userContent = fst (combinedContent ?flaky world0 ?b sampleDate)\<rparr>"]
  show ?thesis
    by (simp add: world0_def sampleImage_def sampleUrl_def)
qed

subsection \<open>Failed and oversized images\<close>

lemma combinedImageBlocks_spec:
  "fst (combinedImageBlocks e i imgs blocks w) =
     blocks @ concat (map (\<lambda>(j, img, res). Text (combinedImageContext j img) # combinedPart res)
                        (enumerate i (zip imgs (resolutions e w imgs))))"
proof (induction imgs arbitrary: i blocks w)
  case Nil
  then show ?case by simp
next
  case (Cons img imgs)
  obtain res w1 where r: "imageUrlToBase64 e w (imageUrl img) = (res, w1)"
    by (cases "imageUrlToBase64 e w (imageUrl img)") auto
  show ?case
  proof (cases res)
    case (Inl err)
    with r Cons.IH show ?thesis by (simp add: Let_def)
  next
    case (Inr rs)
    with r Cons.IH show ?thesis by (simp add: Let_def)
  qed
qed

lemma batchImageBlocks_spec:
  "fst (batchImageBlocks e i imgs blocks w) =
     blocks @ concat (map (\<lambda>(j, img, res). Text (batchImageContext j img) # batchPart res)
                        (enumerate i (zip imgs (resolutions e w imgs))))"
proof (induction imgs arbitrary: i blocks w)
  case Nil
  then show ?case by simp
next
  case (Cons img imgs)
  obtain res w1 where r: "imageUrlToBase64 e w (imageUrl img) = (res, w1)"
    by (cases "imageUrlToBase64 e w (imageUrl img)") auto
  show ?case
  proof (cases res)
    case (Inl err)
    with r Cons.IH show ?thesis by (simp add: Let_def)
  next
    case (Inr rs)
    with r Cons.IH show ?thesis by (simp add: Let_def)
  qed
qed

lemma processBatch_sends:
  assumes "anthropic e = Some client"
  shows "\<exists>more. events (snd (processBatch e w batch date i)) =
     events (snd (batchContent e w batch date))
       @ Call \<lparr>system = batchSystem, userContent = fst (batchContent e w batch date)\<rparr> # more"
proof -
  obtain blocks w1 where c: "batchContent e w batch date = (blocks, w1)"
    by (cases "batchContent e w batch date") auto
  let ?req = "\<lparr>system = batchSystem, userContent = blocks\<rparr>"
  obtain more where m: "events (snd (createWithRetry client ?req w1)) = events w1 @ Call ?req # more"
    using createWithRetry_first_call by blast
  obtain res w2 where s: "createWithRetry client ?req w1 = (res, w2)"
    by (cases "createWithRetry client ?req w1") auto
  have "events (snd (processBatch e w batch date i)) = events w2"
    using assms c s by (simp add: processBatch_events sendRequest_def)
  with m s c show ?thesis by simp
qed

lemma generateCombinedPost_sends:
  assumes "anthropic e = Some client" and "imgs \<noteq> []" and "length imgs \<le> 5"
  shows "\<exists>more. events (snd (generateCombinedPost e w (Some imgs) date)) =
     events (snd (combinedContent e w imgs date))
       @ Call \<lparr>system = combinedSystem, userContent = fst (combinedContent e w imgs date)\<rparr> # more"
proof -
  obtain blocks w1 where c: "combinedContent e w imgs date = (blocks, w1)"
    by (cases "combinedContent e w imgs date") auto
  let ?req = "\<lparr>system = combinedSystem, userContent = blocks\<rparr>"
  obtain more where m: "events (snd (createWithRetry client ?req w1)) = events w1 @ Call ?req # more"
    using createWithRetry_first_call by blast
  obtain res w2 where s: "createWithRetry client ?req w1 = (res, w2)"
    by (cases "createWithRetry client ?req w1") auto
  have "events (snd (generateCombinedPost e w (Some imgs) date)) = events w2"
    using assms c s by (simp add: generateCombinedPost_events sendRequest_def)
  with m s c show ?thesis by simp
qed

lemma sample_resolutions:
  "resolutions (sampleEnv client) world0 [brokenImage, bigImage, sampleImage] =
     [Inl (Error ''Invalid image URL format: ftp://school.example/a.png'' None),
      Inr \<lparr>mediaType = ''image/jpeg'', base64Data = replicate 7000000 (CHR ''A'')\<rparr>,
      Inr \<lparr>mediaType = ''image/png'', base64Data = ''iVBORw0KGgo=''\<rparr>]"
  by (simp add: model_defs sample_defs)

text \<open>
  In selection mode the request built for a batch with an unresolvable image, an oversized
  image and a good image holds neither placeholder text: the failed image leaves its
  context block and the newline block, the oversized one its context block alone.
\<close>

theorem selection_mode_no_placeholder:
  "fst (batchContent (sampleEnv (always sixJson)) world0 [brokenImage, bigImage, sampleImage] sampleDate)
     = [Text (batchIntro sampleDate 3),
        Text (batchImageContext 0 brokenImage), Text ''\<newline>'',
        Text (batchImageContext 1 bigImage),
        Text (batchImageContext 2 sampleImage), Image ''image/png'' ''iVBORw0KGgo='', Text ''\<newline>'',
        Text batchInstructions]
   \<and> Text ''[Image could not be loaded]''
       \<notin> set (fst (batchContent (sampleEnv (always sixJson)) world0
                     [brokenImage, bigImage, sampleImage] sampleDate))
   \<and> Text ''[Image could not be loaded]\<newline>''
       \<notin> set (fst (batchContent (sampleEnv (always sixJson)) world0
                     [brokenImage, bigImage, sampleImage] sampleDate))
   \<and> Text ''[Image too large to process]''
       \<notin> set (fst (batchContent (sampleEnv (always sixJson)) world0
                     [brokenImage, bigImage, sampleImage] sampleDate))
   \<and> Text ''[Image too large to process]\<newline>''
       \<notin> set (fst (batchContent (sampleEnv (always sixJson)) world0
                     [brokenImage, bigImage, sampleImage] sampleDate))"
proof -
  have blocks: "fst (batchContent (sampleEnv (always sixJson)) world0
        [brokenImage, bigImage, sampleImage] sampleDate)
     = [Text (batchIntro sampleDate 3),
        Text (batchImageContext 0 brokenImage), Text ''\<newline>'',
        Text (batchImageContext 1 bigImage),
        Text (batchImageContext 2 sampleImage), Image ''image/png'' ''iVBORw0KGgo='', Text ''\<newline>'',
        Text batchInstructions]"
    by (simp add: model_defs sample_defs numeral_2_eq_2 numeral_3_eq_3)
  have texts: "hd (batchIntro sampleDate 3) = CHR ''Y''"
    "hd (batchImageContext 0 brokenImage) = CHR ''-''"
    "hd (batchImageContext 1 bigImage) = CHR ''-''"
    "hd (batchImageContext 2 sampleImage) = CHR ''-''"
    "hd batchInstructions = CHR ''\<newline>''"
    by (simp_all add: batchIntro_def batchImageContext_def batchInstructions_def)
  have "t \<noteq> p" if "hd t \<noteq> hd p" for t p :: string
    using that by auto
  with texts have
    "Text ''[Image could not be loaded]'' \<notin> set [Text (batchIntro sampleDate 3),
        Text (batchImageContext 0 brokenImage), Text ''\<newline>'',
        Text (batchImageContext 1 bigImage),
        Text (batchImageContext 2 sampleImage), Image ''image/png'' ''iVBORw0KGgo='', Text ''\<newline>'',
        Text batchInstructions]"
    "Text ''[Image could not be loaded]\<newline>'' \<notin> set [Text (batchIntro sampleDate 3),
        Text (batchImageContext 0 brokenImage), Text ''\<newline>'',
        Text (batchImageContext 1 bigImage),
        Text (batchImageContext 2 sampleImage), Image ''image/png'' ''iVBORw0KGgo='', Text ''\<newline>'',
        Text batchInstructions]"
    "Text ''[Image too large to process]'' \<notin> set [Text (batchIntro sampleDate 3),
        Text (batchImageContext 0 brokenImage), Text ''\<newline>'',
        Text (batchImageContext 1 bigImage),
        Text (batchImageContext 2 sampleImage), Image ''image/png'' ''iVBORw0KGgo='', Text ''\<newline>'',
        Text batchInstructions]"
    "Text ''[Image too large to process]\<newline>'' \<notin> set [Text (batchIntro sampleDate 3),
        Text (batchImageContext 0 brokenImage), Text ''\<newline>'',
        Text (batchImageContext 1 bigImage),
        Text (batchImageContext 2 sampleImage), Image ''image/png'' ''iVBORw0KGgo='', Text ''\<newline>'',
        Text batchInstructions]"
    by auto
  with blocks show ?thesis by simp
qed

text \<open>
  C6, as the code has it. The content of a request is the introduction, then for each
  image, in order, its context block followed by what its resolution gives, then the
  instructions. In combined mode a failed resolution gives the text
  \<open>[Image could not be loaded]\<close> and an image over 5MB the text
  \<open>[Image too large to process]\<close> in place of the image block; in selection mode neither
  text is inserted. In both modes every image of the batch is in the request whatever its
  resolution gave, and the request built this way is sent to the client.
\<close>

theorem failed_image_blocks:
  "fst (combinedContent e w imgs date) =
     Text (combinedIntro date (length imgs))
       # concat (map (\<lambda>(j, img, res). Text (combinedImageContext j img) # combinedPart res)
                   (enumerate 0 (zip imgs (resolutions e w imgs))))
       @ [Text (combinedInstructions (length imgs))]
   \<and> fst (batchContent e w batch date) =
     Text (batchIntro date (length batch))
       # concat (map (\<lambda>(j, img, res). Text (batchImageContext j img) # batchPart res)
                   (enumerate 0 (zip batch (resolutions e w batch))))
       @ [Text batchInstructions]
   \<and> length (resolutions e w imgs) = length imgs
   \<and> (anthropic e \<noteq> None \<longrightarrow>
        (\<exists>more. events (snd (processBatch e w batch date i)) =
           events (snd (batchContent e w batch date))
             @ Call \<lparr>system = batchSystem, userContent = fst (batchContent e w batch date)\<rparr> # more))
   \<and> (anthropic e \<noteq> None \<and> imgs \<noteq> [] \<and> length imgs \<le> 5 \<longrightarrow>
        (\<exists>more. events (snd (generateCombinedPost e w (Some imgs) date)) =
           events (snd (combinedContent e w imgs date))
             @ Call \<lparr>system = combinedSystem, userContent = fst (combinedContent e w imgs date)\<rparr> # more))"
proof -
  have 1: "fst (combinedContent e w imgs date) =
     Text (combinedIntro date (length imgs))
       # concat (map (\<lambda>(j, img, res). Text (combinedImageContext j img) # combinedPart res)
                   (enumerate 0 (zip imgs (resolutions e w imgs))))
       @ [Text (combinedInstructions (length imgs))]"
    using combinedImageBlocks_spec [of e 0 imgs "[Text (combinedIntro date (length imgs))]" w]
    by (simp add: combinedContent_def split_beta)
  have 2: "fst (batchContent e w batch date) =
     Text (batchIntro date (length batch))
       # concat (map (\<lambda>(j, img, res). Text (batchImageContext j img) # batchPart res)
                   (enumerate 0 (zip batch (resolutions e w batch))))
       @ [Text batchInstructions]"
    using batchImageBlocks_spec [of e 0 batch "[Text (batchIntro date (length batch))]" w]
    by (simp add: batchContent_def split_beta)
  have 3: "length (resolutions e w imgs) = length imgs"
    by (induction imgs arbitrary: w) (auto simp: split_beta)
  from 1 2 3 processBatch_sends generateCombinedPost_sends show ?thesis
    by blast
qed

text \<open>Combined mode on an unresolvable image, an oversized image and a good image: both
  placeholders are in the request, and the request is sent in either mode.\<close>

theorem failed_image_blocks_witness:
  "fst (combinedContent (sampleEnv (always captionJson)) world0
          [brokenImage, bigImage, sampleImage] sampleDate)
     = [Text (combinedIntro sampleDate 3),
        Text (combinedImageContext 0 brokenImage), Text ''[Image could not be loaded]\<newline>'',
        Text ''\<newline>'',
        Text (combinedImageContext 1 bigImage), Text ''[Image too large to process]\<newline>'',
        Text (combinedImageContext 2 sampleImage), Image ''image/png'' ''iVBORw0KGgo='',
        Text ''\<newline>'',
        Text (combinedInstructions 3)]
   \<and> anthropic (sampleEnv (always captionJson)) \<noteq> None
   \<and> [brokenImage, bigImage, sampleImage] \<noteq> []
   \<and> length [brokenImage, bigImage, sampleImage] \<le> 5
   \<and> events (snd (generateCombinedPost (sampleEnv (always captionJson)) world0
         (Some [brokenImage, bigImage, sampleImage]) sampleDate))
       = [Fetch ''https://school.example/b.jpg'',
          Call \<lparr>system = combinedSystem,
                userContent = fst (combinedContent (sampleEnv (always captionJson)) world0
                                     [brokenImage, bigImage, sampleImage] sampleDate)\<rparr>]
   \<and> events (snd (processBatch (sampleEnv (always captionJson)) world0
         [brokenImage, bigImage, sampleImage] sampleDate 0))
       = [Fetch ''https://school.example/b.jpg'',
          Call \<lparr>system = batchSystem,
                userContent = fst (batchContent (sampleEnv (always captionJson)) world0
                                     [brokenImage, bigImage, sampleImage] sampleDate)\<rparr>]"
proof -
  let ?e = "sampleEnv (always captionJson)"
  let ?imgs = "[brokenImage, bigImage, sampleImage]"
  note inst = failed_image_blocks [of ?e world0 ?imgs sampleDate ?imgs 0,
      unfolded sample_resolutions]
  have big: "tooLarge (replicate 7000000 (CHR ''A''))"
    by (simp add: tooLarge_def)
  have small: "\<not> tooLarge ''iVBORw0KGgo=''"
    by (simp add: tooLarge_def)
  have cfg: "anthropic ?e \<noteq> None" by simp
  have blocks: "fst (combinedContent ?e world0 ?imgs sampleDate)
     = [Text (combinedIntro sampleDate 3),
        Text (combinedImageContext 0 brokenImage), Text ''[Image could not be loaded]\<newline>'',
        Text ''\<newline>'',
        Text (combinedImageContext 1 bigImage), Text ''[Image too large to process]\<newline>'',
        Text (combinedImageContext 2 sampleImage), Image ''image/png'' ''iVBORw0KGgo='',
        Text ''\<newline>'',
        Text (combinedInstructions 3)]"
    using inst
    by (simp add: enumerate_eq_zip upt_conv_Cons big small numeral_2_eq_2 numeral_3_eq_3)
  have ev1: "events (snd (combinedContent ?e world0 ?imgs sampleDate))
      = [Fetch ''https://school.example/b.jpg'']"
    by (simp add: model_defs sample_defs)
  have ev2: "events (snd (batchContent ?e world0 ?imgs sampleDate))
      = [Fetch ''https://school.example/b.jpg'']"
    by (simp add: model_defs sample_defs)
  have post: "events (snd (generateCombinedPost ?e world0 (Some ?imgs) sampleDate))
       = [Fetch ''https://school.example/b.jpg'',
          Call \<lparr>system = combinedSystem,
                userContent = fst (combinedContent ?e world0 ?imgs sampleDate)\<rparr>]"
    by (simp add: generateCombinedPost_events sendRequest_def createWithRetry_def retryLoop_0
        always_def reply_def ev1)
  have batch: "events (snd (processBatch ?e world0 ?imgs sampleDate 0))
       = [Fetch ''https://school.example/b.jpg'',
          Call \<lparr>system = batchSystem,
                userContent = fst (batchContent ?e world0 ?imgs sampleDate)\<rparr>]"
    by (simp add: processBatch_events sendRequest_def createWithRetry_def retryLoop_0
        always_def reply_def ev2)
  from blocks cfg post batch show ?thesis by simp
qed

subsection \<open>Validation of the selections\<close>

text \<open>
  For an entry that is not \<open>null\<close> and has an integer or absent \<open>image_index\<close>, reading the
  index and converting it to a key do not throw, and the key finds the image at that index
  or nothing: the key is the decimal text of the integer, or \<open>undefined\<close>.
\<close>

lemma conforming_lookup:
  assumes "standardPrototypes e" and "conforming sel"
  shows "\<exists>idx key. property ''image_index'' sel = Inr idx \<and> propertyKey idx = Inr key
      \<and> batchAt e batch key =
          (if indexInRange batch sel then Element (batch ! nat (the (entryIndex sel))) else Falsy)"
proof (cases "own ''image_index'' sel")
  case None
  with assms(2) show ?thesis
    by (simp add: conforming_def property_def propertyKey_def entryIndex_def indexInRange_def
        batchAt_undefined [OF assms(1)])
next
  case (Some v)
  with assms(2) obtain n where "v = JInt n"
    by (auto simp: conforming_def entryIndex_def split: json.splits)
  with Some assms(2) show ?thesis
    by (simp add: conforming_def property_def propertyKey_def entryIndex_def indexInRange_def
        batchAt_int [OF assms(1)])
qed

lemma selectionPosts_conforming:
  assumes "standardPrototypes e" and "\<forall>sel\<in>set sels. conforming sel"
  shows "\<exists>ps. selectionPosts e batch sels w =
           (Inr ps, w\<lparr>clockReads := clockReads w + length (filter (indexInRange batch) sels)\<rparr>)
      \<and> filterBoolean ps =
           map (\<lambda>(j, sel). postFor batch sel (Date_now e j))
             (enumerate (clockReads w) (filter (indexInRange batch) sels))"
  using assms(2)
proof (induction sels arbitrary: w)
  case Nil
  then show ?case by simp
next
  case (Cons sel sels)
  then have conf: "conforming sel" and rest: "\<forall>s\<in>set sels. conforming s"
    by simp_all
  from conforming_lookup [OF assms(1) conf, of batch] obtain idx key
    where idx: "property ''image_index'' sel = Inr idx"
      and key: "propertyKey idx = Inr key"
      and at: "batchAt e batch key =
          (if indexInRange batch sel then Element (batch ! nat (the (entryIndex sel))) else Falsy)"
    by blast
  show ?case
  proof (cases "indexInRange batch sel")
    case False
    from Cons.IH [OF rest, of w] obtain ps
      where run: "selectionPosts e batch sels w =
           (Inr ps, w\<lparr>clockReads := clockReads w + length (filter (indexInRange batch) sels)\<rparr>)"
        and posts: "filterBoolean ps =
           map (\<lambda>(j, sel). postFor batch sel (Date_now e j))
             (enumerate (clockReads w) (filter (indexInRange batch) sels))"
      by blast
    from False idx key at run posts show ?thesis
      by simp
  next
    case True
    let ?w = "w\<lparr>clockReads := clockReads w + 1\<rparr>"
    from Cons.IH [OF rest, of ?w] obtain ps
      where run: "selectionPosts e batch sels ?w =
           (Inr ps, ?w\<lparr>clockReads := clockReads ?w + length (filter (indexInRange batch) sels)\<rparr>)"
        and posts: "filterBoolean ps =
           map (\<lambda>(j, sel). postFor batch sel (Date_now e j))
             (enumerate (clockReads ?w) (filter (indexInRange batch) sels))"
      by blast
    from True idx key at run posts show ?thesis
      by (simp add: Let_def postFor_def)
  qed
qed




subsection \<open>The loop over the batches\<close>

text \<open>
  A batch whose first attempt is answered with a reply inside the response schema: its
  posts are those of the entries that point inside the batch, and the world has one more
  call and one more clock reading per post.
\<close>

lemma processBatch_answered:
  assumes "anthropic e = Some client"
    and "standardPrototypes e"
    and "client (callCount w) \<lparr>system = batchSystem, userContent = fst (batchContent e w batch date)\<rparr>
           = Resolved (Some r)"
    and "JSON_parse e (stripCodeFences (messageContent r)) = Some parsed"
    and "parsed \<noteq> JNull"
    and "\<forall>sel\<in>set (selectionsOf parsed). conforming sel"
  shows "processBatch e w batch date i =
     (Inr (map (\<lambda>(j, sel). postFor batch sel (Date_now e j))
             (enumerate (clockReads (snd (batchContent e w batch date)))
                (filter (indexInRange batch) (selectionsOf parsed)))),
      (emit (Call \<lparr>system = batchSystem, userContent = fst (batchContent e w batch date)\<rparr>)
         (snd (batchContent e w batch date)))
       \<lparr>clockReads := clockReads (snd (batchContent e w batch date))
          + length (filter (indexInRange batch) (selectionsOf parsed))\<rparr>)"
proof -
  let ?blocks = "fst (batchContent e w batch date)"
  let ?w1 = "snd (batchContent e w batch date)"
  let ?req = "\<lparr>system = batchSystem, userContent = ?blocks\<rparr>"
  let ?w2 = "?w1\<lparr>events := events ?w1 @ retryTrace ?req 1\<rparr>"
  have content: "batchContent e w batch date = (?blocks, ?w1)" by simp
  have one: "(1::nat) \<in> {1, 2, 3}" by simp
  have before: "\<forall>j<(1::nat) - 1. \<exists>err. client (callCount ?w1 + j) ?req = Rejected err
      \<and> status err = Some 529"
    by simp
  have last: "client (callCount ?w1 + (1 - 1)) ?req = Resolved (Some r)"
    using assms(3) by simp
  have w2: "?w2 = emit (Call ?req) ?w1"
    by (simp add: emit_def retryTrace_simps)
  show ?thesis
  proof (cases "selectionsOf parsed = []")
    case True
    from processBatch_no_selections [OF assms(1) content one before last assms(4,5) True, of i]
    show ?thesis
      unfolding w2 using True by simp
  next
    case False
    from selectionPosts_conforming [OF assms(2,6), of batch ?w2] obtain ps
      where run: "selectionPosts e batch (selectionsOf parsed) ?w2 =
             (Inr ps, ?w2\<lparr>clockReads := clockReads ?w2
                + length (filter (indexInRange batch) (selectionsOf parsed))\<rparr>)"
        and posts: "filterBoolean ps =
             map (\<lambda>(j, sel). postFor batch sel (Date_now e j))
               (enumerate (clockReads ?w2) (filter (indexInRange batch) (selectionsOf parsed)))"
      by blast
    have clock: "clockReads ?w2 = clockReads ?w1" by simp
    from processBatch_selections [OF assms(1) content one before last assms(4,5) False, of i]
    have "processBatch e w batch date i =
        (Inr (filterBoolean ps), ?w2\<lparr>clockReads := clockReads ?w2
                + length (filter (indexInRange batch) (selectionsOf parsed))\<rparr>)"
      unfolding run by simp
    then show ?thesis
      unfolding posts clock unfolding w2 by simp
  qed
qed

lemma generateInstagramCaptions_loop:
  assumes "anthropic e \<noteq> None" and "es \<noteq> []"
  shows "generateInstagramCaptions e w (Some es) date =
     (case batchesLoop e date 0
             (planBatches (MAX_BATCH_SIZE_MB * 1024) ESTIMATED_IMAGE_SIZE_KB (flattenImages es)) [] w of
        (Inl err, w1) \<Rightarrow> (Inl err, w1)
      | (Inr allPosts, w1) \<Rightarrow> (Inr (take 5 allPosts), w1))"
  using assms by (auto simp: generateInstagramCaptions_def Let_def)

lemma map_enumerate_const: "map (\<lambda>(j, x). f x) (enumerate n xs) = map f xs"
  by (induction xs arbitrary: n) simp_all



text \<open>
  C1. Whenever \<open>generateInstagramCaptions\<close> returns posts, it returns at most five,
  whatever the emails are and whatever the client, \<open>fetch\<close> and \<open>JSON.parse\<close> answer.
\<close>

theorem caption_cap:
  "fst (generateInstagramCaptions e w emails date) = Inr posts \<Longrightarrow> length posts \<le> 5"
  by (auto simp: generateInstagramCaptions_def Let_def split: option.splits if_splits prod.splits sum.splits)


text \<open>A reply with six valid selections: five posts are returned.\<close>

theorem caption_cap_witness:
  "fst (generateInstagramCaptions (sampleEnv (always sixJson)) world0 (Some [sampleEmail 1]) sampleDate)
     = Inr (replicate 5 (postFor [sampleImage] (pick 0) sampleDate))
   \<and> length (replicate 5 (postFor [sampleImage] (pick 0) sampleDate)) \<le> 5"
proof -
  let ?e = "sampleEnv (always sixJson)"
  let ?parsed = "JObj [(''selections'', JArr (replicate 6 (pick 0)))]"
  have plan: "planBatches (MAX_BATCH_SIZE_MB * 1024) ESTIMATED_IMAGE_SIZE_KB
      (flattenImages [sampleEmail 1]) = [[sampleImage]]"
    by (simp add: planBatches_def flattenImages_def sampleEmail_def sampleImage_def)
  have entries: "selectionsOf ?parsed = replicate 6 (pick 0)"
    by (simp add: selectionsOf_def own_def)
  have inside: "indexInRange [sampleImage] (pick 0)"
    by (simp add: indexInRange_def entryIndex_def own_def pick_def)
  have conf: "\<forall>sel\<in>set (selectionsOf ?parsed). conforming sel"
    unfolding entries by (simp add: conforming_def entryIndex_def own_def pick_def)
  have first: "processBatch ?e world0 [sampleImage] sampleDate 0 =
      (Inr (map (\<lambda>(j, sel). postFor [sampleImage] sel (Date_now ?e j))
              (enumerate (clockReads (snd (batchContent ?e world0 [sampleImage] sampleDate)))
                 (filter (indexInRange [sampleImage]) (selectionsOf ?parsed)))),
       (emit (Call \<lparr>system = batchSystem,
                     userContent = fst (batchContent ?e world0 [sampleImage] sampleDate)\<rparr>)
          (snd (batchContent ?e world0 [sampleImage] sampleDate)))
        \<lparr>clockReads := clockReads (snd (batchContent ?e world0 [sampleImage] sampleDate))
           + length (filter (indexInRange [sampleImage]) (selectionsOf ?parsed))\<rparr>)"
    by (rule processBatch_answered [where client = "always sixJson"
          and r = "\<lparr>content = Some [Some sixJson]\<rparr>", OF _ _ _ _ _ conf])
       (simp_all add: standardPrototypes_sampleEnv sample_parse always_def reply_def)
  have posts: "map (\<lambda>(j, sel). postFor [sampleImage] sel (Date_now ?e j))
              (enumerate (clockReads (snd (batchContent ?e world0 [sampleImage] sampleDate)))
                 (filter (indexInRange [sampleImage]) (selectionsOf ?parsed)))
      = replicate 6 (postFor [sampleImage] (pick 0) sampleDate)"
    unfolding entries by (simp add: inside map_enumerate_const map_replicate)
  have cfg: "anthropic ?e \<noteq> None" by simp
  have nonempty: "[sampleEmail 1] \<noteq> []" by simp
  have run: "fst (generateInstagramCaptions ?e world0 (Some [sampleEmail 1]) sampleDate)
      = Inr (replicate 5 (postFor [sampleImage] (pick 0) sampleDate))"
    unfolding generateInstagramCaptions_loop [OF cfg nonempty] plan batchesLoop.simps first posts
    by simp
  from caption_cap [OF run] run show ?thesis by simp
qed







subsection \<open>The guards of combined mode\<close>

text \<open>
  C9. With a configured client and more than five images, \<open>generateCombinedPost\<close> throws
  \<open>Maximum 5 images can be selected\<close> at once and leaves the world as it was: no content is
  built, no image is resolved, no request is sent.
\<close>

theorem too_many_images:
  assumes "anthropic e \<noteq> None"
    and "length imgs > 5"
  shows "generateCombinedPost e w (Some imgs) date =
     (Inl (Error ''Maximum 5 images can be selected'' None), w)"
  using assms by (auto simp: generateCombinedPost_def split: option.splits)

text \<open>Six images, and a client that would answer: the error is thrown, and the trace stays
  empty.\<close>

theorem too_many_images_witness:
  "anthropic (sampleEnv (always captionJson)) \<noteq> None
   \<and> length (replicate 6 sampleImage) > 5
   \<and> generateCombinedPost (sampleEnv (always captionJson)) world0 (Some (replicate 6 sampleImage))
        sampleDate
       = (Inl (Error ''Maximum 5 images can be selected'' None), \<lparr>events = [], clockReads = 0\<rparr>)"
proof -
  have cfg: "anthropic (sampleEnv (always captionJson)) \<noteq> None" by simp
  have six: "length (replicate 6 sampleImage) > 5" by simp
  from too_many_images [OF cfg six, of world0 sampleDate] cfg six
  show ?thesis by (simp add: world0_def)
qed

text \<open>
  C10. With a configured client and an absent or empty image list, \<open>generateCombinedPost\<close>
  throws \<open>No images provided\<close> at once and leaves the world as it was.
\<close>

theorem no_images:
  assumes "anthropic e \<noteq> None"
    and "images = None \<or> images = Some []"
  shows "generateCombinedPost e w images date = (Inl (Error ''No images provided'' None), w)"
  using assms by (auto simp: generateCombinedPost_def split: option.splits)

theorem no_images_witness:
  "anthropic (sampleEnv (always captionJson)) \<noteq> None
   \<and> generateCombinedPost (sampleEnv (always captionJson)) world0 (Some []) sampleDate
       = (Inl (Error ''No images provided'' None), \<lparr>events = [], clockReads = 0\<rparr>)
   \<and> generateCombinedPost (sampleEnv (always captionJson)) world0 None sampleDate
       = (Inl (Error ''No images provided'' None), \<lparr>events = [], clockReads = 0\<rparr>)"
proof -
  have cfg: "anthropic (sampleEnv (always captionJson)) \<noteq> None" by simp
  from no_images [OF cfg, of "Some []" world0 sampleDate]
    no_images [OF cfg, of None world0 sampleDate] cfg
  show ?thesis by (simp add: world0_def)
qed

end
